theory Spec2Isabelle
  imports Main "HOL-Library.Word" "HOL-Library.Char_ord" "HOL-Library.List_Lexorder"
begin

section \<open>The JSON values the validators inspect\<close>

text \<open>
  The validators of \<^verbatim>\<open>include/nadi/message_validation.hpp\<close> take a
  \<^verbatim>\<open>const nlohmann::json&\<close>. A value of that type is one of the library's value kinds;
  the model keeps one constructor per kind. Integers are the library's 64-bit signed and
  unsigned number kinds, a floating-point number is carried as its 64 bits (no validator
  looks at it). An object is a \<^verbatim>\<open>std::map\<close> from strings to values: it is modelled
  by its entries in iteration order, which for a well-formed object is strictly
  ascending key order. No result below depends on the entries being ordered or the keys
  being distinct; a lookup finds the first entry with the key.
\<close>

datatype json =
    JNull
  | JObject "(string \<times> json) list"
  | JArray "json list"
  | JString string
  | JBoolean bool
  | JNumberInteger "64 word"
  | JNumberUnsigned "64 word"
  | JNumberFloat "64 word"
  | JBinary "8 word list"

text \<open>
  What can go wrong in the library calls the validators make: the const subscript operator
  throws \<^verbatim>\<open>type_error\<close> 305 when the value is not of the kind subscripted, and its
  behaviour is undefined (a failed assertion in debug builds) when the key is absent or
  the index is past the end.
\<close>

datatype fault = type_error | undefined_access

type_synonym 'a result = "fault + 'a"

fun is_object :: "json \<Rightarrow> bool" where
  "is_object (JObject _) = True"
| "is_object _ = False"

fun is_array :: "json \<Rightarrow> bool" where
  "is_array (JArray _) = True"
| "is_array _ = False"

fun is_string :: "json \<Rightarrow> bool" where
  "is_string (JString _) = True"
| "is_string _ = False"

text \<open>\<^verbatim>\<open>is_number_integer()\<close> holds for the signed and for the unsigned kind.\<close>

fun is_number_integer :: "json \<Rightarrow> bool" where
  "is_number_integer (JNumberInteger _) = True"
| "is_number_integer (JNumberUnsigned _) = True"
| "is_number_integer _ = False"

text \<open>\<^verbatim>\<open>j.contains(key)\<close>: the value is an object and the key is found.\<close>

fun contains :: "json \<Rightarrow> string \<Rightarrow> bool" where
  "contains (JObject kvs) k = (map_of kvs k \<noteq> None)"
| "contains _ _ = False"

text \<open>\<^verbatim>\<open>j[key]\<close> and \<^verbatim>\<open>j[idx]\<close> on a const value.\<close>

fun at_key :: "json \<Rightarrow> string \<Rightarrow> json result" where
  "at_key (JObject kvs) k =
     (case map_of kvs k of None \<Rightarrow> Inl undefined_access | Some v \<Rightarrow> Inr v)"
| "at_key _ _ = Inl type_error"

fun at_index :: "json \<Rightarrow> nat \<Rightarrow> json result" where
  "at_index (JArray xs) i = (if i < length xs then Inr (xs ! i) else Inl undefined_access)"
| "at_index _ _ = Inl type_error"

text \<open>\<^verbatim>\<open>j.size()\<close>: 0 for null, the number of elements or entries of an array or
  object, 1 for every other value.\<close>

fun size_json :: "json \<Rightarrow> nat" where
  "size_json JNull = 0"
| "size_json (JArray xs) = length xs"
| "size_json (JObject kvs) = length kvs"
| "size_json _ = 1"

text \<open>The values a range-based \<^verbatim>\<open>for\<close> visits: the elements of an array, the values
  of an object, nothing for null, and the value itself for every other value.\<close>

fun elements :: "json \<Rightarrow> json list" where
  "elements JNull = []"
| "elements (JArray xs) = xs"
| "elements (JObject kvs) = map snd kvs"
| "elements j = [j]"

text \<open>\<^verbatim>\<open>j != "literal"\<close> compares with the string value built from the literal.\<close>

definition ne_literal :: "string \<Rightarrow> json \<Rightarrow> bool" where
  "ne_literal s j = (j \<noteq> JString s)"

section \<open>C++ control flow over fallible expressions\<close>

text \<open>
  A condition of the source is an expression that yields a boolean or faults on the way.
  \<open>or_else\<close> and \<open>and_also\<close> are the short-circuit operators \<^verbatim>\<open>||\<close> and
  \<^verbatim>\<open>&&\<close>: the right operand counts only when the left one does not decide.
\<close>

definition not_r :: "bool result \<Rightarrow> bool result" where
  "not_r c = (case c of Inl e \<Rightarrow> Inl e | Inr b \<Rightarrow> Inr (\<not> b))"

definition or_else :: "bool result \<Rightarrow> bool result \<Rightarrow> bool result" where
  "or_else a b = (case a of Inl e \<Rightarrow> Inl e | Inr x \<Rightarrow> if x then Inr True else b)"

definition and_also :: "bool result \<Rightarrow> bool result \<Rightarrow> bool result" where
  "and_also a b = (case a of Inl e \<Rightarrow> Inl e | Inr x \<Rightarrow> if x then b else Inr False)"

text \<open>A chained subscript \<^verbatim>\<open>e[key]\<close>, \<^verbatim>\<open>e[idx]\<close> and a member test
  \<^verbatim>\<open>e.is_string()\<close> on an expression \<open>e\<close> that may already have faulted.\<close>

definition sub_key :: "json result \<Rightarrow> string \<Rightarrow> json result" where
  "sub_key r k = (case r of Inl e \<Rightarrow> Inl e | Inr j \<Rightarrow> at_key j k)"

definition sub_index :: "json result \<Rightarrow> nat \<Rightarrow> json result" where
  "sub_index r i = (case r of Inl e \<Rightarrow> Inl e | Inr j \<Rightarrow> at_index j i)"

definition test :: "json result \<Rightarrow> (json \<Rightarrow> bool) \<Rightarrow> bool result" where
  "test r p = (case r of Inl e \<Rightarrow> Inl e | Inr j \<Rightarrow> Inr (p j))"

text \<open>
  Statements are written with their continuation: \<open>rest\<close> is what the function does
  after the statement. \<open>return_false_if c rest\<close> is \<^verbatim>\<open>if (c) return false;\<close>,
  \<open>if_then c block rest\<close> is \<^verbatim>\<open>if (c) { block }\<close> where the block itself may return,
  and \<open>for_range r body rest\<close> is \<^verbatim>\<open>for (const auto& x : r) { body }\<close>.
\<close>

definition return_false_if :: "bool result \<Rightarrow> bool result \<Rightarrow> bool result" where
  "return_false_if c rest =
     (case c of Inl e \<Rightarrow> Inl e | Inr b \<Rightarrow> if b then Inr False else rest)"

definition if_then :: "bool result \<Rightarrow> (bool result \<Rightarrow> bool result) \<Rightarrow> bool result \<Rightarrow> bool result" where
  "if_then c block rest =
     (case c of Inl e \<Rightarrow> Inl e | Inr b \<Rightarrow> if b then block rest else rest)"

fun for_each :: "json list \<Rightarrow> (json \<Rightarrow> bool result \<Rightarrow> bool result) \<Rightarrow> bool result \<Rightarrow> bool result" where
  "for_each [] body rest = rest"
| "for_each (x # xs) body rest = body x (for_each xs body rest)"

definition for_range :: "json result \<Rightarrow> (json \<Rightarrow> bool result \<Rightarrow> bool result) \<Rightarrow> bool result \<Rightarrow> bool result" where
  "for_range r body rest =
     (case r of Inl e \<Rightarrow> Inl e | Inr j \<Rightarrow> for_each (elements j) body rest)"

section \<open>The validators of namespace nadi::validation\<close>

text \<open>The conditions that recur in the validators, each as the source writes it.\<close>

definition type_mismatch :: "json \<Rightarrow> string \<Rightarrow> bool result" where
  \<comment> \<open>\<^verbatim>\<open>!msg.contains("type") || !msg["type"].is_string() || msg["type"] != t\<close>\<close>
  "type_mismatch msg t =
     or_else (Inr (\<not> contains msg ''type''))
       (or_else (not_r (test (at_key msg ''type'') is_string))
                (test (at_key msg ''type'') (ne_literal t)))"

definition missing_or_not :: "(json \<Rightarrow> bool) \<Rightarrow> json \<Rightarrow> string \<Rightarrow> bool result" where
  \<comment> \<open>\<^verbatim>\<open>!msg.contains(k) || !msg[k].is_kind()\<close>\<close>
  "missing_or_not is_kind msg k =
     or_else (Inr (\<not> contains msg k)) (not_r (test (at_key msg k) is_kind))"

definition present_but_not :: "(json \<Rightarrow> bool) \<Rightarrow> json \<Rightarrow> string \<Rightarrow> bool result" where
  \<comment> \<open>\<^verbatim>\<open>msg.contains(k) && !msg[k].is_kind()\<close>\<close>
  "present_but_not is_kind msg k =
     and_also (Inr (contains msg k)) (not_r (test (at_key msg k) is_kind))"

definition bad_pair :: "json \<Rightarrow> string \<Rightarrow> bool result" where
  \<comment> \<open>\<^verbatim>\<open>!msg.contains(k) || !msg[k].is_array() || msg[k].size() != 2\<close>\<close>
  "bad_pair msg k =
     or_else (Inr (\<not> contains msg k))
       (or_else (not_r (test (at_key msg k) is_array))
                (test (at_key msg k) (\<lambda>a. size_json a \<noteq> 2)))"

definition not_handle_or_alias :: "json \<Rightarrow> string \<Rightarrow> bool result" where
  \<comment> \<open>\<^verbatim>\<open>!(msg[k][0].is_string() || msg[k][0].is_number_integer())\<close>\<close>
  "not_handle_or_alias msg k =
     not_r (or_else (test (sub_index (at_key msg k) 0) is_string)
                    (test (sub_index (at_key msg k) 0) is_number_integer))"

definition not_channel :: "json \<Rightarrow> string \<Rightarrow> bool result" where
  \<comment> \<open>\<^verbatim>\<open>!msg[k][1].is_number_integer()\<close>\<close>
  "not_channel msg k = not_r (test (sub_index (at_key msg k) 1) is_number_integer)"

definition validate_context_abstract_nodes :: "json \<Rightarrow> bool result" where
  "validate_context_abstract_nodes msg =
     return_false_if (Inr (\<not> is_object msg)) (
     return_false_if (type_mismatch msg ''context.abstract_nodes'') (
     return_false_if (missing_or_not is_string msg ''id'') (
     Inr True)))"

text \<open>The body of the two loops over \<^verbatim>\<open>instance["channels"]["input"]\<close> and
  \<^verbatim>\<open>instance["channels"]["output"]\<close> (lines 33 to 36 and 42 to 45, the same text).\<close>

definition channel_checks :: "json \<Rightarrow> bool result \<Rightarrow> bool result" where
  "channel_checks channel next =
     return_false_if (Inr (\<not> is_object channel)) (
     return_false_if (missing_or_not is_number_integer channel ''number'') (
     return_false_if (present_but_not is_string channel ''name'') (
     return_false_if (present_but_not is_array channel ''data types'') (
     next))))"

text \<open>\<^verbatim>\<open>if (instance["channels"].contains(dir)) { ... }\<close> for \<open>dir\<close> one of
  \<^verbatim>\<open>"input"\<close> and \<^verbatim>\<open>"output"\<close> (lines 30 to 38 and 39 to 47).\<close>

definition channels_block :: "string \<Rightarrow> json \<Rightarrow> bool result \<Rightarrow> bool result" where
  "channels_block dir instance rest =
     if_then (test (at_key instance ''channels'') (\<lambda>c. contains c dir))
       (\<lambda>after.
          return_false_if (not_r (test (sub_key (at_key instance ''channels'') dir) is_array)) (
          for_range (sub_key (at_key instance ''channels'') dir) channel_checks (
          after)))
       rest"

text \<open>The body of the loop over \<^verbatim>\<open>msg["instances"]\<close> (lines 24 to 48).\<close>

definition instance_checks :: "json \<Rightarrow> bool result \<Rightarrow> bool result" where
  "instance_checks instance next =
     return_false_if (Inr (\<not> is_object instance)) (
     return_false_if (missing_or_not is_string instance ''name'') (
     return_false_if (missing_or_not is_string instance ''version'') (
     return_false_if (present_but_not is_string instance ''description'') (
     if_then (Inr (contains instance ''channels''))
       (\<lambda>after.
          return_false_if (not_r (test (at_key instance ''channels'') is_object)) (
          channels_block ''input'' instance (
          channels_block ''output'' instance (
          after))))
       next))))"

definition validate_context_abstract_nodes_list :: "json \<Rightarrow> bool result" where
  "validate_context_abstract_nodes_list msg =
     return_false_if (Inr (\<not> is_object msg)) (
     return_false_if (type_mismatch msg ''context.abstract_nodes.list'') (
     return_false_if (missing_or_not is_array msg ''instances'') (
     return_false_if (missing_or_not is_string msg ''id'') (
     for_range (at_key msg ''instances'') instance_checks (
     Inr True)))))"

definition validate_context_connect :: "json \<Rightarrow> bool result" where
  "validate_context_connect msg =
     return_false_if (Inr (\<not> is_object msg)) (
     return_false_if (type_mismatch msg ''context.connect'') (
     return_false_if (bad_pair msg ''source'') (
     return_false_if (bad_pair msg ''destination'') (
     return_false_if (not_handle_or_alias msg ''source'') (
     return_false_if (not_channel msg ''source'') (
     return_false_if (not_handle_or_alias msg ''destination'') (
     return_false_if (not_channel msg ''destination'') (
     return_false_if (present_but_not is_string msg ''id'') (
     Inr True)))))))))"

definition validate_context_connect_confirm :: "json \<Rightarrow> bool result" where
  "validate_context_connect_confirm msg =
     return_false_if (Inr (\<not> is_object msg)) (
     return_false_if (type_mismatch msg ''context.connect.confirm'') (
     return_false_if (missing_or_not is_string msg ''status'') (
     return_false_if (present_but_not is_string msg ''id'') (
     Inr True))))"

definition validate_context_connections :: "json \<Rightarrow> bool result" where
  "validate_context_connections msg =
     return_false_if (Inr (\<not> is_object msg)) (
     return_false_if (type_mismatch msg ''context.connections'') (
     return_false_if (missing_or_not is_string msg ''id'') (
     Inr True)))"

text \<open>The body of the loop over \<^verbatim>\<open>msg["connections"]\<close> (lines 91 to 97).\<close>

definition connection_checks :: "json \<Rightarrow> bool result \<Rightarrow> bool result" where
  "connection_checks conn next =
     return_false_if (Inr (\<not> is_object conn)) (
     return_false_if (bad_pair conn ''source'') (
     return_false_if (bad_pair conn ''target'') (
     return_false_if (not_handle_or_alias conn ''source'') (
     return_false_if (not_channel conn ''source'') (
     return_false_if (not_handle_or_alias conn ''target'') (
     return_false_if (not_channel conn ''target'') (
     next)))))))"

definition validate_context_connections_list :: "json \<Rightarrow> bool result" where
  "validate_context_connections_list msg =
     return_false_if (Inr (\<not> is_object msg)) (
     return_false_if (type_mismatch msg ''context.connections.list'') (
     return_false_if (missing_or_not is_array msg ''connections'') (
     return_false_if (missing_or_not is_string msg ''id'') (
     for_range (at_key msg ''connections'') connection_checks (
     Inr True)))))"

definition validate_context_disconnect :: "json \<Rightarrow> bool result" where
  "validate_context_disconnect msg =
     return_false_if (Inr (\<not> is_object msg)) (
     return_false_if (type_mismatch msg ''context.disconnect'') (
     return_false_if (bad_pair msg ''source'') (
     return_false_if (bad_pair msg ''destination'') (
     return_false_if (not_handle_or_alias msg ''source'') (
     return_false_if (not_channel msg ''source'') (
     return_false_if (not_handle_or_alias msg ''destination'') (
     return_false_if (not_channel msg ''destination'') (
     return_false_if (present_but_not is_string msg ''id'') (
     Inr True)))))))))"

definition validate_context_disconnect_confirm :: "json \<Rightarrow> bool result" where
  "validate_context_disconnect_confirm msg =
     return_false_if (Inr (\<not> is_object msg)) (
     return_false_if (type_mismatch msg ''context.disconnect.confirm'') (
     return_false_if (missing_or_not is_string msg ''status'') (
     return_false_if (present_but_not is_string msg ''id'') (
     Inr True))))"

definition validate_context_node_create :: "json \<Rightarrow> bool result" where
  "validate_context_node_create msg =
     return_false_if (Inr (\<not> is_object msg)) (
     return_false_if (type_mismatch msg ''context.node.create'') (
     return_false_if (missing_or_not is_string msg ''abstract_name'') (
     return_false_if (missing_or_not is_string msg ''instance_name'') (
     return_false_if (present_but_not is_string msg ''id'') (
     Inr True)))))"

definition validate_context_node_create_confirm :: "json \<Rightarrow> bool result" where
  "validate_context_node_create_confirm msg =
     return_false_if (Inr (\<not> is_object msg)) (
     return_false_if (type_mismatch msg ''context.node.create.confirm'') (
     return_false_if (missing_or_not is_number_integer msg ''node'') (
     return_false_if (missing_or_not is_string msg ''instance_name'') (
     return_false_if (missing_or_not is_string msg ''id'') (
     Inr True)))))"

definition validate_context_node_destroy :: "json \<Rightarrow> bool result" where
  "validate_context_node_destroy msg =
     return_false_if (Inr (\<not> is_object msg)) (
     return_false_if (type_mismatch msg ''context.node.destroy'') (
     return_false_if (missing_or_not is_string msg ''instance_name'') (
     return_false_if (present_but_not is_string msg ''id'') (
     Inr True))))"

definition validate_context_node_destroy_confirm :: "json \<Rightarrow> bool result" where
  "validate_context_node_destroy_confirm msg =
     return_false_if (Inr (\<not> is_object msg)) (
     return_false_if (type_mismatch msg ''context.node.destroy.confirm'') (
     return_false_if (missing_or_not is_string msg ''status'') (
     return_false_if (present_but_not is_string msg ''id'') (
     Inr True))))"

definition validate_context_nodes :: "json \<Rightarrow> bool result" where
  "validate_context_nodes msg =
     return_false_if (Inr (\<not> is_object msg)) (
     return_false_if (type_mismatch msg ''context.nodes'') (
     return_false_if (missing_or_not is_string msg ''id'') (
     Inr True)))"

text \<open>The body of the loop over \<^verbatim>\<open>msg["instances"]\<close> (lines 178 and 179).\<close>

definition node_entry_checks :: "json \<Rightarrow> bool result \<Rightarrow> bool result" where
  "node_entry_checks instance next =
     return_false_if (Inr (\<not> is_object instance)) (
     return_false_if (missing_or_not is_string instance ''instance'') (
     next))"

definition validate_context_nodes_list :: "json \<Rightarrow> bool result" where
  "validate_context_nodes_list msg =
     return_false_if (Inr (\<not> is_object msg)) (
     return_false_if (type_mismatch msg ''context.nodes.list'') (
     return_false_if (missing_or_not is_array msg ''instances'') (
     return_false_if (missing_or_not is_string msg ''id'') (
     for_range (at_key msg ''instances'') node_entry_checks (
     Inr True)))))"

text \<open>The body of the loop over \<^verbatim>\<open>msg["source"]\<close> (lines 191 and 214).\<close>

definition source_item_checks :: "json \<Rightarrow> bool result \<Rightarrow> bool result" where
  "source_item_checks item next =
     return_false_if (Inr (\<not> is_number_integer item)) next"

definition validate_node_connect :: "json \<Rightarrow> bool result" where
  "validate_node_connect msg =
     return_false_if (Inr (\<not> is_object msg)) (
     return_false_if (type_mismatch msg ''node.connect'') (
     return_false_if (bad_pair msg ''source'') (
     return_false_if (missing_or_not is_number_integer msg ''target'') (
     for_range (at_key msg ''source'') source_item_checks (
     return_false_if (present_but_not is_string msg ''id'') (
     Inr True))))))"

definition validate_node_connect_confirm :: "json \<Rightarrow> bool result" where
  "validate_node_connect_confirm msg =
     return_false_if (Inr (\<not> is_object msg)) (
     return_false_if (type_mismatch msg ''node.connect.confirm'') (
     return_false_if (missing_or_not is_string msg ''status'') (
     return_false_if (missing_or_not is_string msg ''id'') (
     return_false_if (present_but_not is_string msg ''message'') (
     Inr True)))))"

definition validate_node_disconnect :: "json \<Rightarrow> bool result" where
  "validate_node_disconnect msg =
     return_false_if (Inr (\<not> is_object msg)) (
     return_false_if (type_mismatch msg ''node.disconnect'') (
     return_false_if (bad_pair msg ''source'') (
     return_false_if (missing_or_not is_number_integer msg ''target'') (
     for_range (at_key msg ''source'') source_item_checks (
     return_false_if (present_but_not is_string msg ''id'') (
     Inr True))))))"

definition validate_node_disconnect_confirm :: "json \<Rightarrow> bool result" where
  "validate_node_disconnect_confirm msg =
     return_false_if (Inr (\<not> is_object msg)) (
     return_false_if (type_mismatch msg ''node.disconnect.confirm'') (
     return_false_if (missing_or_not is_string msg ''status'') (
     return_false_if (missing_or_not is_string msg ''id'') (
     return_false_if (present_but_not is_string msg ''message'') (
     Inr True)))))"

section \<open>The status codes of the C interface\<close>

text \<open>The enumeration \<^verbatim>\<open>nadi_status\<close> of \<^verbatim>\<open>nadi.h\<close> and the integer each
  enumerator is declared with.\<close>

datatype nadi_status =
    NADI_OK
  | NADI_INVALID_NODE
  | NADI_INVALID_MESSAGE
  | NADI_NOT_INITIALIZED
  | NADI_INVALID_CHANNEL
  | NADI_BUFFER_TOO_SMALL

fun status_code :: "nadi_status \<Rightarrow> int" where
  "status_code NADI_OK = 0"
| "status_code NADI_INVALID_NODE = - 1"
| "status_code NADI_INVALID_MESSAGE = - 2"
| "status_code NADI_NOT_INITIALIZED = - 3"
| "status_code NADI_INVALID_CHANNEL = - 4"
| "status_code NADI_BUFFER_TOO_SMALL = - 5"

section \<open>Reading a message field by field\<close>

text \<open>The field of a message under a key: none when the message is not an object or has
  no such key.\<close>

fun field :: "json \<Rightarrow> string \<Rightarrow> json option" where
  "field (JObject kvs) k = map_of kvs k"
| "field _ _ = None"

definition has_type :: "json \<Rightarrow> string \<Rightarrow> bool" where
  "has_type msg t = (field msg ''type'' = Some (JString t))"

definition required :: "(json \<Rightarrow> bool) \<Rightarrow> json \<Rightarrow> string \<Rightarrow> bool" where
  "required is_kind msg k = (case field msg k of None \<Rightarrow> False | Some v \<Rightarrow> is_kind v)"

definition optional :: "(json \<Rightarrow> bool) \<Rightarrow> json \<Rightarrow> string \<Rightarrow> bool" where
  "optional is_kind msg k = (case field msg k of None \<Rightarrow> True | Some v \<Rightarrow> is_kind v)"

text \<open>A (handle-or-alias, channel) pair: an array of exactly two elements, the first a
  string or an integer, the second an integer.\<close>

fun is_endpoint :: "json \<Rightarrow> bool" where
  "is_endpoint (JArray [a, b]) = ((is_string a \<or> is_number_integer a) \<and> is_number_integer b)"
| "is_endpoint _ = False"

text \<open>An array of exactly two elements, both integers.\<close>

fun is_integer_pair :: "json \<Rightarrow> bool" where
  "is_integer_pair (JArray [a, b]) = (is_number_integer a \<and> is_number_integer b)"
| "is_integer_pair _ = False"

text \<open>What the checks of validate_context_abstract_nodes_list accept as a channel
  descriptor, as a list of them, as the \<^verbatim>\<open>"channels"\<close> object of an abstract node and as
  an abstract node.\<close>

definition channel_descriptor_ok :: "json \<Rightarrow> bool" where
  "channel_descriptor_ok channel =
     (is_object channel \<and> required is_number_integer channel ''number''
      \<and> optional is_string channel ''name''
      \<and> optional is_array channel ''data types'')"

definition channel_list_ok :: "json \<Rightarrow> bool" where
  "channel_list_ok a = (is_array a \<and> list_all channel_descriptor_ok (elements a))"

definition channels_ok :: "json \<Rightarrow> bool" where
  "channels_ok c =
     (is_object c \<and> optional channel_list_ok c ''input'' \<and> optional channel_list_ok c ''output'')"

definition abstract_node_ok :: "json \<Rightarrow> bool" where
  "abstract_node_ok instance =
     (is_object instance \<and> required is_string instance ''name''
      \<and> required is_string instance ''version''
      \<and> optional is_string instance ''description''
      \<and> optional channels_ok instance ''channels'')"

text \<open>The shape of a context.node.create request, in the words of the control-plane
  table: an object of that type with two required string fields and an optional string
  id.\<close>

definition node_create_request_shape :: "json \<Rightarrow> bool" where
  "node_create_request_shape msg =
     (is_object msg \<and> has_type msg ''context.node.create''
      \<and> required is_string msg ''abstract_name''
      \<and> required is_string msg ''instance_name''
      \<and> optional is_string msg ''id'')"

text \<open>The shape of a context.connect request: source and destination are both
  (handle-or-alias, channel) pairs, the id is an optional string.\<close>

definition context_connect_shape :: "json \<Rightarrow> bool" where
  "context_connect_shape msg =
     (is_object msg \<and> has_type msg ''context.connect''
      \<and> required is_endpoint msg ''source''
      \<and> required is_endpoint msg ''destination''
      \<and> optional is_string msg ''id'')"

text \<open>The shape of a node.connect request: the source is a pair of integers and the
  target a single integer.\<close>

definition node_connect_shape :: "json \<Rightarrow> bool" where
  "node_connect_shape msg =
     (is_object msg \<and> has_type msg ''node.connect''
      \<and> required is_integer_pair msg ''source''
      \<and> required is_number_integer msg ''target''
      \<and> optional is_string msg ''id'')"

text \<open>A message with one more entry, as \<^verbatim>\<open>m[k] = v\<close> leaves it: the entry replaces the
  one under the same key or is put at its place in key order. A message without the entry
  under a key, as \<^verbatim>\<open>m.erase(k)\<close> leaves it.\<close>

fun insert_entry :: "string \<Rightarrow> json \<Rightarrow> (string \<times> json) list \<Rightarrow> (string \<times> json) list" where
  "insert_entry k v [] = [(k, v)]"
| "insert_entry k v ((k', v') # kvs) =
     (if k = k' then (k, v) # kvs
      else if k < k' then (k, v) # (k', v') # kvs
      else (k', v') # insert_entry k v kvs)"

fun with_field :: "string \<Rightarrow> json \<Rightarrow> json \<Rightarrow> json" where
  "with_field k v (JObject kvs) = JObject (insert_entry k v kvs)"
| "with_field k v j = j"

fun without_field :: "string \<Rightarrow> json \<Rightarrow> json" where
  "without_field k (JObject kvs) = JObject (filter (\<lambda>e. fst e \<noteq> k) kvs)"
| "without_field k j = j"

text \<open>The message with every integer, of the signed or of the unsigned kind and wherever
  it stands, replaced by the unsigned 0. Two messages with the same image have the same
  structure, keys, strings and other values, and integers at the same places: they differ
  at most in what their integers are.\<close>

fun zero_integers :: "json \<Rightarrow> json" where
  "zero_integers (JObject kvs) = JObject (map (\<lambda>(k, v). (k, zero_integers v)) kvs)"
| "zero_integers (JArray xs) = JArray (map zero_integers xs)"
| "zero_integers (JNumberInteger w) = JNumberUnsigned 0"
| "zero_integers (JNumberUnsigned w) = JNumberUnsigned 0"
| "zero_integers j = j"

section \<open>Dispatch and the release of a message\<close>

text \<open>
  \<^verbatim>\<open>nadi.h\<close> declares \<^verbatim>\<open>struct nadi_message\<close>, \<^verbatim>\<open>nadi_send\<close> and
  \<^verbatim>\<open>nadi_free\<close>; the repository holds no implementation of them. The message is the
  struct of the header, without its \<^verbatim>\<open>free\<close> pointer: an invocation of that callback
  is an event of the trace below. \<^verbatim>\<open>data_length\<close> is the length of \<open>data\<close>.
\<close>

record nadi_message =
  meta :: string
  meta_hash :: "64 word"
  data :: "8 word list"
  channel :: "32 word"
  node :: "64 word"

text \<open>Modelled from the spec: the two parties that can own a message, the caller of
  send and Dispatch; the repository has no code for either role.\<close>

datatype owner = Caller | Dispatch

text \<open>Modelled from the spec: what is observed of one message, which the repository
  leaves to the implementation. A receive callback was invoked for a destination (node,
  channel), or the release callback of the message was invoked by the party that owned
  it then.\<close>

datatype event = Received "64 word" "32 word" | Released owner

text \<open>Modelled from the spec: the events that are an invocation of the release
  callback.\<close>

fun is_release :: "event \<Rightarrow> bool" where
  "is_release (Released _) = True"
| "is_release (Received _ _) = False"

text \<open>Modelled from the spec: the counted handle of the design notes ("an explicit
  counted handle rather than relying on garbage collection"): the single owner, the number
  of references held on the message, and the events so far.\<close>

record message_handle =
  owner :: owner
  refs :: nat
  trace :: "event list"

text \<open>Modelled from the spec: the Context that Dispatch consults, absent from the
  repository. The Registry gives the declared input channels of each live node and the
  Routing Table is the list of edges in insertion order.\<close>

record nadi_context =
  input_channels :: "64 word \<Rightarrow> 32 word list option"
  edges :: "((64 word \<times> 32 word) \<times> (64 word \<times> 32 word)) list"

text \<open>Modelled from the spec: \<open>resolve(source)\<close> of the Routing Table, absent from the
  repository: the destinations of the edges that leave the source, in insertion order;
  there may be none.\<close>

definition resolve :: "nadi_context \<Rightarrow> 64 word \<times> 32 word \<Rightarrow> (64 word \<times> 32 word) list" where
  "resolve ctx src = map snd (filter (\<lambda>e. fst e = src) (edges ctx))"

text \<open>Modelled from the spec: taking one more reference on the message, for a destination
  about to read it.\<close>

definition acquire :: "message_handle \<Rightarrow> message_handle" where
  "acquire h = h\<lparr>refs := refs h + 1\<rparr>"

text \<open>Modelled from the spec: \<open>free(message)\<close>, absent from the repository. It gives one
  reference back; the release callback of the message is invoked when no reference is
  left. Freeing a message that holds no reference invokes the callback again.\<close>

definition nadi_free :: "message_handle \<Rightarrow> message_handle" where
  "nadi_free h =
     (if refs h \<le> 1 then h\<lparr>refs := 0, trace := trace h @ [Released (owner h)]\<rparr>
      else h\<lparr>refs := refs h - 1\<rparr>)"

text \<open>Modelled from the spec: the receive callback of a destination, which reads the
  shared message and calls \<open>free\<close> once it is done reading.\<close>

definition receive_callback :: "64 word \<times> 32 word \<Rightarrow> message_handle \<Rightarrow> message_handle" where
  "receive_callback d h = nadi_free (h\<lparr>trace := trace h @ [Received (fst d) (snd d)]\<rparr>)"

text \<open>Modelled from the spec: the fan-out of Dispatch, one callback after the other, each
  on a reference of its own.\<close>

fun deliver :: "(64 word \<times> 32 word) list \<Rightarrow> message_handle \<Rightarrow> message_handle" where
  "deliver [] h = h"
| "deliver (d # ds) h = deliver ds (receive_callback d (acquire h))"

text \<open>Modelled from the spec: \<open>send(message, declared_receiver)\<close>, of which the
  repository has the declaration only. An unknown receiver and a channel the receiver does
  not declare fail and leave the message with the caller. Otherwise ownership moves to
  Dispatch, every resolved destination is served, and Dispatch gives its reference back
  after the last callback has returned.\<close>

definition nadi_send ::
  "nadi_context \<Rightarrow> nadi_message \<Rightarrow> 64 word \<Rightarrow> message_handle \<Rightarrow> nadi_status \<times> message_handle" where
  "nadi_send ctx message receiver h =
     (case input_channels ctx receiver of
        None \<Rightarrow> (NADI_INVALID_NODE, h)
      | Some declared \<Rightarrow>
          if channel message \<notin> set declared then (NADI_INVALID_CHANNEL, h)
          else (NADI_OK,
                nadi_free (deliver (resolve ctx (node message, channel message))
                                   (h\<lparr>owner := Dispatch\<rparr>))))"

text \<open>Modelled from the spec: the life of a message handed to Dispatch by a caller that
  keeps its contract: the caller holds the only reference, sends, and frees the message
  itself when (and only when) the send fails.\<close>

definition hand_over :: "nadi_context \<Rightarrow> nadi_message \<Rightarrow> 64 word \<Rightarrow> message_handle" where
  "hand_over ctx message receiver =
     (case nadi_send ctx message receiver \<lparr>owner = Caller, refs = 1, trace = []\<rparr> of
        (status, h) \<Rightarrow> if status = NADI_OK then h else nadi_free h)"

section \<open>What each validator computes\<close>

subsection \<open>Conditions and statements\<close>

lemma return_false_if_Inr:
  "return_false_if (Inr b) rest = (if b then Inr False else rest)"
  by (simp add: return_false_if_def)

lemma if_then_Inr: "if_then (Inr b) block rest = (if b then block rest else rest)"
  by (simp add: if_then_def)

lemma contains_field: "contains j k = (field j k \<noteq> None)"
  by (cases j) simp_all

lemma at_key_field: "field j k = Some v \<Longrightarrow> at_key j k = Inr v"
  by (cases j) simp_all

lemma type_mismatch_eq:
  "is_object msg \<Longrightarrow> type_mismatch msg t = Inr (\<not> has_type msg t)"
  by (cases msg)
     (auto simp: type_mismatch_def or_else_def not_r_def test_def has_type_def ne_literal_def
           split: option.splits)

lemma missing_or_not_eq:
  "is_object msg \<Longrightarrow> missing_or_not p msg k = Inr (\<not> required p msg k)"
  by (cases msg)
     (auto simp: missing_or_not_def or_else_def not_r_def test_def required_def
           split: option.splits)

lemma present_but_not_eq:
  "is_object msg \<Longrightarrow> present_but_not p msg k = Inr (\<not> optional p msg k)"
  by (cases msg)
     (auto simp: present_but_not_def and_also_def not_r_def test_def optional_def
           split: option.splits)

lemmas simple_validator_simps =
  return_false_if_Inr type_mismatch_eq missing_or_not_eq present_but_not_eq

lemma required_mono: "(\<And>v. p v \<Longrightarrow> q v) \<Longrightarrow> required p msg k \<Longrightarrow> required q msg k"
  by (auto simp: required_def split: option.splits)

lemma bad_pair_eq:
  "is_object msg \<Longrightarrow>
   bad_pair msg k = Inr (\<not> required (\<lambda>a. is_array a \<and> length (elements a) = 2) msg k)"
  apply (cases msg; simp add: bad_pair_def or_else_def not_r_def test_def required_def split: option.splits)
  subgoal for kvs
    apply (intro allI impI)
    subgoal for v by (cases v) simp_all
    done
  done

lemma is_endpoint_pair: "is_endpoint v \<Longrightarrow> is_array v \<and> length (elements v) = 2"
  by (induction v rule: is_endpoint.induct) simp_all

lemma endpoint_checks_eq:
  assumes "is_object msg" "required (\<lambda>a. is_array a \<and> length (elements a) = 2) msg k"
  shows "return_false_if (not_handle_or_alias msg k) (return_false_if (not_channel msg k) rest)
         = (if required is_endpoint msg k then rest else Inr False)"
proof -
  from assms obtain a b where f: "field msg k = Some (JArray [a, b])"
    apply (cases msg; simp add: required_def split: option.splits)
    subgoal for kvs v
      apply (cases v; simp)
      subgoal for xs
        by (cases xs; simp; cases "tl xs"; simp) 
      done
    done
  show ?thesis
    by (simp add: not_handle_or_alias_def not_channel_def at_key_field[OF f] sub_index_def
        test_def or_else_def not_r_def return_false_if_def required_def f)
qed

lemma endpoint_block_eq:
  assumes obj: "is_object msg"
  shows "return_false_if (bad_pair msg k1) (return_false_if (bad_pair msg k2) (
         return_false_if (not_handle_or_alias msg k1) (return_false_if (not_channel msg k1) (
         return_false_if (not_handle_or_alias msg k2) (return_false_if (not_channel msg k2) rest)))))
       = (if required is_endpoint msg k1 \<and> required is_endpoint msg k2 then rest else Inr False)"
proof -
  let ?pair = "\<lambda>a. is_array a \<and> length (elements a) = 2"
  show ?thesis
  proof (cases "required ?pair msg k1 \<and> required ?pair msg k2")
    case True
    then show ?thesis
      using obj by (simp add: return_false_if_Inr bad_pair_eq endpoint_checks_eq)
  next
    case False
    then have "\<not> (required is_endpoint msg k1 \<and> required is_endpoint msg k2)"
      using required_mono[of is_endpoint ?pair] is_endpoint_pair by blast
    with False show ?thesis
      using obj by (auto simp add: return_false_if_Inr bad_pair_eq)
  qed
qed

lemma integer_pair_eq:
  "is_integer_pair a = (is_array a \<and> length (elements a) = 2 \<and> list_all is_number_integer (elements a))"
  by (induction a rule: is_integer_pair.induct) auto

subsection \<open>Loops that return at the first element they reject\<close>

lemma for_each_all:
  assumes "\<And>x k. x \<in> set xs \<Longrightarrow> body x k = (if P x then k else Inr False)"
  shows "for_each xs body rest = (if list_all P xs then rest else Inr False)"
  using assms by (induction xs) simp_all

lemma for_range_field_all:
  assumes "field msg k = Some a"
    and "\<And>x next. body x next = (if P x then next else Inr False)"
  shows "for_range (at_key msg k) body rest
         = (if list_all P (elements a) then rest else Inr False)"
  using assms(2) by (simp add: for_range_def at_key_field[OF assms(1)] for_each_all)

lemma for_range_required:
  assumes "required p msg k"
    and "\<And>x next. body x next = (if P x then next else Inr False)"
  shows "for_range (at_key msg k) body rest
         = (if required (\<lambda>a. list_all P (elements a)) msg k then rest else Inr False)"
proof -
  from assms(1) obtain a where f: "field msg k = Some a"
    by (auto simp: required_def split: option.splits)
  show ?thesis
    by (simp add: for_range_field_all[OF f assms(2)] required_def f)
qed

subsection \<open>The validators, one by one\<close>

text \<open>Each validator returns a boolean, and the boolean is a conjunction of conditions
  on the fields of the message.\<close>

lemma validate_context_abstract_nodes_eq:
  "validate_context_abstract_nodes msg =
     Inr (is_object msg \<and> has_type msg ''context.abstract_nodes'' \<and> required is_string msg ''id'')"
  by (cases "is_object msg") (simp_all add: validate_context_abstract_nodes_def simple_validator_simps)

lemma validate_context_connections_eq:
  "validate_context_connections msg =
     Inr (is_object msg \<and> has_type msg ''context.connections'' \<and> required is_string msg ''id'')"
  by (cases "is_object msg") (simp_all add: validate_context_connections_def simple_validator_simps)

lemma validate_context_nodes_eq:
  "validate_context_nodes msg =
     Inr (is_object msg \<and> has_type msg ''context.nodes'' \<and> required is_string msg ''id'')"
  by (cases "is_object msg") (simp_all add: validate_context_nodes_def simple_validator_simps)

lemma validate_context_connect_confirm_eq:
  "validate_context_connect_confirm msg =
     Inr (is_object msg \<and> has_type msg ''context.connect.confirm''
          \<and> required is_string msg ''status'' \<and> optional is_string msg ''id'')"
  by (cases "is_object msg") (simp_all add: validate_context_connect_confirm_def simple_validator_simps)

lemma validate_context_disconnect_confirm_eq:
  "validate_context_disconnect_confirm msg =
     Inr (is_object msg \<and> has_type msg ''context.disconnect.confirm''
          \<and> required is_string msg ''status'' \<and> optional is_string msg ''id'')"
  by (cases "is_object msg") (simp_all add: validate_context_disconnect_confirm_def simple_validator_simps)

lemma validate_context_node_create_eq:
  "validate_context_node_create msg = Inr (node_create_request_shape msg)"
  by (cases "is_object msg")
     (simp_all add: validate_context_node_create_def node_create_request_shape_def
        return_false_if_Inr type_mismatch_eq missing_or_not_eq present_but_not_eq)

lemma validate_context_node_create_confirm_eq:
  "validate_context_node_create_confirm msg =
     Inr (is_object msg \<and> has_type msg ''context.node.create.confirm''
          \<and> required is_number_integer msg ''node'' \<and> required is_string msg ''instance_name''
          \<and> required is_string msg ''id'')"
  by (cases "is_object msg") (simp_all add: validate_context_node_create_confirm_def simple_validator_simps)

lemma validate_context_node_destroy_eq:
  "validate_context_node_destroy msg =
     Inr (is_object msg \<and> has_type msg ''context.node.destroy''
          \<and> required is_string msg ''instance_name'' \<and> optional is_string msg ''id'')"
  by (cases "is_object msg") (simp_all add: validate_context_node_destroy_def simple_validator_simps)

lemma validate_context_node_destroy_confirm_eq:
  "validate_context_node_destroy_confirm msg =
     Inr (is_object msg \<and> has_type msg ''context.node.destroy.confirm''
          \<and> required is_string msg ''status'' \<and> optional is_string msg ''id'')"
  by (cases "is_object msg") (simp_all add: validate_context_node_destroy_confirm_def simple_validator_simps)

lemma validate_node_connect_confirm_eq:
  "validate_node_connect_confirm msg =
     Inr (is_object msg \<and> has_type msg ''node.connect.confirm''
          \<and> required is_string msg ''status'' \<and> required is_string msg ''id''
          \<and> optional is_string msg ''message'')"
  by (cases "is_object msg") (simp_all add: validate_node_connect_confirm_def simple_validator_simps)

lemma validate_node_disconnect_confirm_eq:
  "validate_node_disconnect_confirm msg =
     Inr (is_object msg \<and> has_type msg ''node.disconnect.confirm''
          \<and> required is_string msg ''status'' \<and> required is_string msg ''id''
          \<and> optional is_string msg ''message'')"
  by (cases "is_object msg") (simp_all add: validate_node_disconnect_confirm_def simple_validator_simps)

lemma validate_context_connect_eq:
  "validate_context_connect msg = Inr (context_connect_shape msg)"
  by (cases "is_object msg")
     (auto simp: validate_context_connect_def context_connect_shape_def
        simple_validator_simps endpoint_block_eq)

lemma validate_context_disconnect_eq:
  "validate_context_disconnect msg =
     Inr (is_object msg \<and> has_type msg ''context.disconnect''
          \<and> required is_endpoint msg ''source'' \<and> required is_endpoint msg ''destination''
          \<and> optional is_string msg ''id'')"
  by (cases "is_object msg")
     (auto simp: validate_context_disconnect_def simple_validator_simps endpoint_block_eq)

lemma source_item_checks_eq:
  "source_item_checks item next = (if is_number_integer item then next else Inr False)"
  by (simp add: source_item_checks_def return_false_if_Inr)

lemma validate_node_connect_eq:
  "validate_node_connect msg = Inr (node_connect_shape msg)"
proof (cases "is_object msg")
  case False
  then show ?thesis
    by (simp add: validate_node_connect_def node_connect_shape_def return_false_if_Inr)
next
  case obj: True
  let ?pair = "\<lambda>a. is_array a \<and> length (elements a) = 2"
  have split: "required is_integer_pair msg ''source''
      = (required ?pair msg ''source'' \<and> required (\<lambda>a. list_all is_number_integer (elements a)) msg ''source'')"
    by (auto simp: required_def integer_pair_eq split: option.splits)
  show ?thesis
  proof (cases "required ?pair msg ''source''")
    case True
    then show ?thesis
      using obj
      by (simp add: validate_node_connect_def node_connect_shape_def simple_validator_simps
          bad_pair_eq for_range_required[OF True source_item_checks_eq] split)
  next
    case False
    then show ?thesis
      using obj
      by (simp add: validate_node_connect_def node_connect_shape_def simple_validator_simps
          bad_pair_eq split)
  qed
qed

lemma validate_node_disconnect_eq:
  "validate_node_disconnect msg =
     Inr (is_object msg \<and> has_type msg ''node.disconnect''
          \<and> required is_integer_pair msg ''source'' \<and> required is_number_integer msg ''target''
          \<and> optional is_string msg ''id'')"
proof (cases "is_object msg")
  case False
  then show ?thesis
    by (simp add: validate_node_disconnect_def return_false_if_Inr)
next
  case obj: True
  let ?pair = "\<lambda>a. is_array a \<and> length (elements a) = 2"
  have split: "required is_integer_pair msg ''source''
      = (required ?pair msg ''source'' \<and> required (\<lambda>a. list_all is_number_integer (elements a)) msg ''source'')"
    by (auto simp: required_def integer_pair_eq split: option.splits)
  show ?thesis
  proof (cases "required ?pair msg ''source''")
    case True
    then show ?thesis
      using obj
      by (simp add: validate_node_disconnect_def simple_validator_simps
          bad_pair_eq for_range_required[OF True source_item_checks_eq] split)
  next
    case False
    then show ?thesis
      using obj
      by (simp add: validate_node_disconnect_def simple_validator_simps bad_pair_eq split)
  qed
qed

lemma node_entry_checks_eq:
  "node_entry_checks instance next =
     (if is_object instance \<and> required is_string instance ''instance'' then next else Inr False)"
  by (cases "is_object instance") (simp_all add: node_entry_checks_def simple_validator_simps)

lemma validate_context_nodes_list_eq:
  "validate_context_nodes_list msg =
     Inr (is_object msg \<and> has_type msg ''context.nodes.list''
          \<and> required is_array msg ''instances'' \<and> required is_string msg ''id''
          \<and> required (\<lambda>a. list_all (\<lambda>i. is_object i \<and> required is_string i ''instance'') (elements a))
               msg ''instances'')"
proof (cases "is_object msg \<and> required is_array msg ''instances''")
  case True
  then have arr: "required is_array msg ''instances''" and obj: "is_object msg"
    by simp_all
  show ?thesis
    using obj arr
    by (simp add: validate_context_nodes_list_def simple_validator_simps
        for_range_required[OF arr node_entry_checks_eq])
next
  case False
  then show ?thesis
    by (cases "is_object msg") (simp_all add: validate_context_nodes_list_def simple_validator_simps)
qed

lemma connection_checks_eq:
  "connection_checks conn next =
     (if is_object conn \<and> required is_endpoint conn ''source'' \<and> required is_endpoint conn ''target''
      then next else Inr False)"
  by (cases "is_object conn")
     (simp_all add: connection_checks_def return_false_if_Inr endpoint_block_eq)

lemma validate_context_connections_list_eq:
  "validate_context_connections_list msg =
     Inr (is_object msg \<and> has_type msg ''context.connections.list''
          \<and> required is_array msg ''connections'' \<and> required is_string msg ''id''
          \<and> required (\<lambda>a. list_all (\<lambda>c. is_object c \<and> required is_endpoint c ''source''
                                         \<and> required is_endpoint c ''target'') (elements a))
               msg ''connections'')"
proof (cases "is_object msg \<and> required is_array msg ''connections''")
  case True
  then have arr: "required is_array msg ''connections''" and obj: "is_object msg"
    by simp_all
  show ?thesis
    using obj arr
    by (simp add: validate_context_connections_list_def simple_validator_simps
        for_range_required[OF arr connection_checks_eq])
next
  case False
  then show ?thesis
    by (cases "is_object msg")
       (simp_all add: validate_context_connections_list_def simple_validator_simps)
qed

lemma channel_checks_eq:
  "channel_checks c next = (if channel_descriptor_ok c then next else Inr False)"
  by (cases "is_object c")
     (simp_all add: channel_checks_def channel_descriptor_ok_def simple_validator_simps)

lemma channels_block_eq:
  assumes c: "field instance ''channels'' = Some c"
  shows "channels_block dir instance rest
         = (if optional channel_list_ok c dir then rest else Inr False)"
proof (cases "field c dir")
  case None
  then show ?thesis
    by (simp add: channels_block_def at_key_field[OF c] test_def contains_field if_then_Inr
        optional_def)
next
  case (Some a)
  have "for_range (at_key c dir) channel_checks rest
        = (if list_all channel_descriptor_ok (elements a) then rest else Inr False)"
    by (rule for_range_field_all[OF Some channel_checks_eq])
  then show ?thesis
    by (simp add: channels_block_def at_key_field[OF c] at_key_field[OF Some] test_def
        sub_key_def contains_field if_then_Inr optional_def Some not_r_def return_false_if_Inr
        channel_list_ok_def)
qed

lemma instance_checks_eq:
  "instance_checks instance next = (if abstract_node_ok instance then next else Inr False)"
proof (cases "is_object instance")
  case False
  then show ?thesis
    by (simp add: instance_checks_def abstract_node_ok_def return_false_if_Inr)
next
  case obj: True
  show ?thesis
  proof (cases "field instance ''channels''")
    case None
    then show ?thesis
      using obj
      by (simp add: instance_checks_def abstract_node_ok_def simple_validator_simps
          contains_field if_then_Inr optional_def)
  next
    case (Some c)
    show ?thesis
      using obj
      by (simp add: instance_checks_def abstract_node_ok_def simple_validator_simps
          contains_field if_then_Inr Some at_key_field[OF Some] test_def not_r_def
          channels_block_eq[OF Some] channels_ok_def optional_def[of channels_ok])
  qed
qed

lemma validate_context_abstract_nodes_list_eq:
  "validate_context_abstract_nodes_list msg =
     Inr (is_object msg \<and> has_type msg ''context.abstract_nodes.list''
          \<and> required is_array msg ''instances'' \<and> required is_string msg ''id''
          \<and> required (\<lambda>a. list_all abstract_node_ok (elements a)) msg ''instances'')"
proof (cases "is_object msg \<and> required is_array msg ''instances''")
  case True
  then have arr: "required is_array msg ''instances''" and obj: "is_object msg"
    by simp_all
  show ?thesis
    using obj arr
    by (simp add: validate_context_abstract_nodes_list_def simple_validator_simps
        for_range_required[OF arr instance_checks_eq])
next
  case False
  then show ?thesis
    by (cases "is_object msg")
       (simp_all add: validate_context_abstract_nodes_list_def simple_validator_simps)
qed

section \<open>Messages with a field added or removed\<close>

lemma map_of_insert_entry:
  "map_of (insert_entry k v kvs) k' = (if k' = k then Some v else map_of kvs k')"
  by (induction kvs) auto

lemma field_with_field:
  "field (with_field k v m) k' = (if is_object m \<and> k' = k then Some v else field m k')"
  by (cases m) (simp_all add: map_of_insert_entry)

lemma is_object_with_field: "is_object (with_field k v m) = is_object m"
  by (cases m) simp_all

lemma map_of_filter_key:
  "map_of (filter (\<lambda>e. fst e \<noteq> k) kvs) k' = (if k' = k then None else map_of kvs k')"
  by (induction kvs) auto

lemma field_without_field:
  "field (without_field k m) k' = (if k' = k then None else field m k')"
  by (cases m) (simp_all add: map_of_filter_key)

lemma is_object_without_field: "is_object (without_field k m) = is_object m"
  by (cases m) simp_all

lemma contains_without_field: "\<not> contains (without_field k m) k"
  by (simp add: contains_field field_without_field)

lemmas field_predicates = has_type_def required_def optional_def

section \<open>The events of a message handed to Dispatch\<close>

lemma receive_callback_acquire:
  "1 \<le> refs h \<Longrightarrow>
   receive_callback d (acquire h) = h\<lparr>trace := trace h @ [Received (fst d) (snd d)]\<rparr>"
  by (simp add: receive_callback_def acquire_def nadi_free_def)

lemma deliver_trace:
  "1 \<le> refs h \<Longrightarrow>
   deliver ds h = h\<lparr>trace := trace h @ map (\<lambda>d. Received (fst d) (snd d)) ds\<rparr>"
proof (induction ds arbitrary: h)
  case Nil
  then show ?case by simp
next
  case (Cons d ds)
  then show ?case
    by (simp add: receive_callback_acquire)
qed

lemma filter_release_received:
  "filter is_release (map (\<lambda>d. Received (fst d) (snd d)) ds) = []"
  by (induction ds) simp_all

lemma hand_over_trace:
  "trace (hand_over ctx message receiver) =
     (case input_channels ctx receiver of
        None \<Rightarrow> [Released Caller]
      | Some declared \<Rightarrow>
          if channel message \<in> set declared
          then map (\<lambda>d. Received (fst d) (snd d)) (resolve ctx (node message, channel message))
               @ [Released Dispatch]
          else [Released Caller])"
  by (simp add: hand_over_def nadi_send_def nadi_free_def deliver_trace split: option.splits)

section \<open>Messages that differ in their integers only\<close>

text \<open>Every test the validators make has the same outcome on a message and on the
  message with its integers replaced, and so has every validator.\<close>

lemma is_object_zero: "is_object (zero_integers v) = is_object v"
  by (cases v) simp_all

lemma is_array_zero: "is_array (zero_integers v) = is_array v"
  by (cases v) simp_all

lemma is_string_zero: "is_string (zero_integers v) = is_string v"
  by (cases v) simp_all

lemma is_number_integer_zero: "is_number_integer (zero_integers v) = is_number_integer v"
  by (cases v) simp_all

lemma zero_integers_string: "(zero_integers v = JString s) = (v = JString s)"
  by (cases v) auto

lemma field_zero: "field (zero_integers m) k = map_option zero_integers (field m k)"
  by (cases m) (simp_all add: map_of_map)

lemma elements_zero: "elements (zero_integers a) = map zero_integers (elements a)"
  by (cases a) (simp_all add: comp_def case_prod_beta)

lemma has_type_zero: "has_type (zero_integers m) t = has_type m t"
  by (cases "field m ''type''") (simp_all add: has_type_def field_zero zero_integers_string)

lemma required_zero:
  "(\<And>v. p (zero_integers v) = p v) \<Longrightarrow> required p (zero_integers m) k = required p m k"
  by (cases "field m k") (simp_all add: required_def field_zero)

lemma optional_zero:
  "(\<And>v. p (zero_integers v) = p v) \<Longrightarrow> optional p (zero_integers m) k = optional p m k"
  by (cases "field m k") (simp_all add: optional_def field_zero)

lemma list_all_zero:
  "(\<And>v. p (zero_integers v) = p v) \<Longrightarrow> list_all p (map zero_integers xs) = list_all p xs"
  by (induction xs) simp_all

lemma is_endpoint_zero: "is_endpoint (zero_integers v) = is_endpoint v"
  by (induction v rule: is_endpoint.induct)
     (simp_all add: is_string_zero is_number_integer_zero)

lemma is_integer_pair_zero: "is_integer_pair (zero_integers v) = is_integer_pair v"
  by (simp add: integer_pair_eq is_array_zero elements_zero list_all_zero is_number_integer_zero)

lemmas kind_zero = is_object_zero is_array_zero is_string_zero is_number_integer_zero
  is_endpoint_zero is_integer_pair_zero has_type_zero

lemma channel_descriptor_ok_zero:
  "channel_descriptor_ok (zero_integers c) = channel_descriptor_ok c"
  by (simp add: channel_descriptor_ok_def kind_zero required_zero optional_zero)

lemma channel_list_ok_zero: "channel_list_ok (zero_integers a) = channel_list_ok a"
  by (simp add: channel_list_ok_def kind_zero elements_zero list_all_zero
      channel_descriptor_ok_zero)

lemma channels_ok_zero: "channels_ok (zero_integers c) = channels_ok c"
  by (simp add: channels_ok_def kind_zero optional_zero channel_list_ok_zero)

lemma abstract_node_ok_zero: "abstract_node_ok (zero_integers i) = abstract_node_ok i"
  by (simp add: abstract_node_ok_def kind_zero required_zero optional_zero channels_ok_zero)

lemma connection_ok_zero:
  "(is_object (zero_integers c) \<and> required is_endpoint (zero_integers c) ''source''
     \<and> required is_endpoint (zero_integers c) ''target'')
   = (is_object c \<and> required is_endpoint c ''source'' \<and> required is_endpoint c ''target'')"
  by (simp add: kind_zero required_zero)

lemma node_entry_ok_zero:
  "(is_object (zero_integers i) \<and> required is_string (zero_integers i) ''instance'')
   = (is_object i \<and> required is_string i ''instance'')"
  by (simp add: kind_zero required_zero)

lemma all_elements_zero:
  "(\<And>v. p (zero_integers v) = p v) \<Longrightarrow>
   list_all p (elements (zero_integers a)) = list_all p (elements a)"
  by (simp add: elements_zero list_all_zero)

lemmas zero_simps = kind_zero required_zero optional_zero all_elements_zero
  abstract_node_ok_zero connection_ok_zero node_entry_ok_zero

lemma validate_context_abstract_nodes_zero:
  "validate_context_abstract_nodes (zero_integers msg) = validate_context_abstract_nodes msg"
  by (simp add: validate_context_abstract_nodes_eq zero_simps)

lemma validate_context_abstract_nodes_list_zero:
  "validate_context_abstract_nodes_list (zero_integers msg) = validate_context_abstract_nodes_list msg"
  by (simp add: validate_context_abstract_nodes_list_eq zero_simps)

lemma validate_context_connect_zero:
  "validate_context_connect (zero_integers msg) = validate_context_connect msg"
  by (simp add: validate_context_connect_eq context_connect_shape_def zero_simps)

lemma validate_context_connect_confirm_zero:
  "validate_context_connect_confirm (zero_integers msg) = validate_context_connect_confirm msg"
  by (simp add: validate_context_connect_confirm_eq zero_simps)

lemma validate_context_connections_zero:
  "validate_context_connections (zero_integers msg) = validate_context_connections msg"
  by (simp add: validate_context_connections_eq zero_simps)

lemma validate_context_connections_list_zero:
  "validate_context_connections_list (zero_integers msg) = validate_context_connections_list msg"
  by (simp add: validate_context_connections_list_eq zero_simps)

lemma validate_context_disconnect_zero:
  "validate_context_disconnect (zero_integers msg) = validate_context_disconnect msg"
  by (simp add: validate_context_disconnect_eq zero_simps)

lemma validate_context_disconnect_confirm_zero:
  "validate_context_disconnect_confirm (zero_integers msg) = validate_context_disconnect_confirm msg"
  by (simp add: validate_context_disconnect_confirm_eq zero_simps)

lemma validate_context_node_create_zero:
  "validate_context_node_create (zero_integers msg) = validate_context_node_create msg"
  by (simp add: validate_context_node_create_eq node_create_request_shape_def zero_simps)

lemma validate_context_node_create_confirm_zero:
  "validate_context_node_create_confirm (zero_integers msg) = validate_context_node_create_confirm msg"
  by (simp add: validate_context_node_create_confirm_eq zero_simps)

lemma validate_context_node_destroy_zero:
  "validate_context_node_destroy (zero_integers msg) = validate_context_node_destroy msg"
  by (simp add: validate_context_node_destroy_eq zero_simps)

lemma validate_context_node_destroy_confirm_zero:
  "validate_context_node_destroy_confirm (zero_integers msg) = validate_context_node_destroy_confirm msg"
  by (simp add: validate_context_node_destroy_confirm_eq zero_simps)

lemma validate_context_nodes_zero:
  "validate_context_nodes (zero_integers msg) = validate_context_nodes msg"
  by (simp add: validate_context_nodes_eq zero_simps)

lemma validate_context_nodes_list_zero:
  "validate_context_nodes_list (zero_integers msg) = validate_context_nodes_list msg"
  by (simp add: validate_context_nodes_list_eq zero_simps)

lemma validate_node_connect_zero:
  "validate_node_connect (zero_integers msg) = validate_node_connect msg"
  by (simp add: validate_node_connect_eq node_connect_shape_def zero_simps)

lemma validate_node_connect_confirm_zero:
  "validate_node_connect_confirm (zero_integers msg) = validate_node_connect_confirm msg"
  by (simp add: validate_node_connect_confirm_eq zero_simps)

lemma validate_node_disconnect_zero:
  "validate_node_disconnect (zero_integers msg) = validate_node_disconnect msg"
  by (simp add: validate_node_disconnect_eq zero_simps)

lemma validate_node_disconnect_confirm_zero:
  "validate_node_disconnect_confirm (zero_integers msg) = validate_node_disconnect_confirm msg"
  by (simp add: validate_node_disconnect_confirm_eq zero_simps)

lemmas validators_zero =
  validate_context_abstract_nodes_zero
  validate_context_abstract_nodes_list_zero
  validate_context_connect_zero
  validate_context_connect_confirm_zero
  validate_context_connections_zero
  validate_context_connections_list_zero
  validate_context_disconnect_zero
  validate_context_disconnect_confirm_zero
  validate_context_node_create_zero
  validate_context_node_create_confirm_zero
  validate_context_node_destroy_zero
  validate_context_node_destroy_confirm_zero
  validate_context_nodes_zero
  validate_context_nodes_list_zero
  validate_node_connect_zero
  validate_node_connect_confirm_zero
  validate_node_disconnect_zero
  validate_node_disconnect_confirm_zero

section \<open>The claims\<close>

subsection \<open>Totality of the validators\<close>

text \<open>
  C1. Every validator is total and free of side effects on an arbitrary JSON value, an
  object or not, with its fields missing or of the wrong kind: it returns a boolean and
  never a fault. A fault is what a subscript yields when the key is absent, the index is
  past the end or the value is of the wrong kind, so every subscript the validators
  reach is one whose element exists. The message is taken by const reference: a validator
  is a function of the message and yields the boolean, nothing else.
\<close>

theorem validators_total:
  "(\<exists>b. validate_context_abstract_nodes msg = Inr b)
   \<and> (\<exists>b. validate_context_abstract_nodes_list msg = Inr b)
   \<and> (\<exists>b. validate_context_connect msg = Inr b)
   \<and> (\<exists>b. validate_context_connect_confirm msg = Inr b)
   \<and> (\<exists>b. validate_context_connections msg = Inr b)
   \<and> (\<exists>b. validate_context_connections_list msg = Inr b)
   \<and> (\<exists>b. validate_context_disconnect msg = Inr b)
   \<and> (\<exists>b. validate_context_disconnect_confirm msg = Inr b)
   \<and> (\<exists>b. validate_context_node_create msg = Inr b)
   \<and> (\<exists>b. validate_context_node_create_confirm msg = Inr b)
   \<and> (\<exists>b. validate_context_node_destroy msg = Inr b)
   \<and> (\<exists>b. validate_context_node_destroy_confirm msg = Inr b)
   \<and> (\<exists>b. validate_context_nodes msg = Inr b)
   \<and> (\<exists>b. validate_context_nodes_list msg = Inr b)
   \<and> (\<exists>b. validate_node_connect msg = Inr b)
   \<and> (\<exists>b. validate_node_connect_confirm msg = Inr b)
   \<and> (\<exists>b. validate_node_disconnect msg = Inr b)
   \<and> (\<exists>b. validate_node_disconnect_confirm msg = Inr b)"
  unfolding validate_context_abstract_nodes_eq validate_context_abstract_nodes_list_eq
    validate_context_connect_eq validate_context_connect_confirm_eq
    validate_context_connections_eq validate_context_connections_list_eq
    validate_context_disconnect_eq validate_context_disconnect_confirm_eq
    validate_context_node_create_eq validate_context_node_create_confirm_eq
    validate_context_node_destroy_eq validate_context_node_destroy_confirm_eq
    validate_context_nodes_eq validate_context_nodes_list_eq
    validate_node_connect_eq validate_node_connect_confirm_eq
    validate_node_disconnect_eq validate_node_disconnect_confirm_eq
  by blast

subsection \<open>Release of a message\<close>

text \<open>
  C2. Whatever the context, the message and the receiver, a message handed to Dispatch has
  its release callback invoked exactly once: by Dispatch after the last receive callback
  of the fan-out has returned when the send succeeds (also when no destination is
  resolved), by the caller when the send fails and the caller frees the message. The
  release is the last event, it is the only release, it is made by the one owner of the
  message, and no reference is left.
\<close>

theorem release_exactly_once:
  "length (filter is_release (trace (hand_over ctx message receiver))) = 1
   \<and> is_release (last (trace (hand_over ctx message receiver)))
   \<and> filter is_release (trace (hand_over ctx message receiver))
       = [Released (owner (hand_over ctx message receiver))]
   \<and> refs (hand_over ctx message receiver) = 0"
proof -
  have "owner (hand_over ctx message receiver) =
     (case input_channels ctx receiver of
        None \<Rightarrow> Caller
      | Some declared \<Rightarrow> if channel message \<in> set declared then Dispatch else Caller)"
    by (simp add: hand_over_def nadi_send_def nadi_free_def deliver_trace split: option.splits)
  moreover have "refs (hand_over ctx message receiver) = 0"
    by (simp add: hand_over_def nadi_send_def nadi_free_def deliver_trace split: option.splits)
  ultimately show ?thesis
    by (simp add: hand_over_trace filter_release_received split: option.splits)
qed

theorem release_exactly_once_witness:
  "trace (hand_over
      \<lparr>input_channels = (\<lambda>h. if h = 2 then Some [1, 0xF100] else None),
       edges = [((1, 1), (2, 1)), ((1, 1), (3, 4)), ((5, 1), (2, 1))]\<rparr>
      \<lparr>meta = ''json'', meta_hash = 0, data = [], channel = 1, node = 1\<rparr> 2)
     = [Received 2 1, Received 3 4, Released Dispatch]
   \<and> length (filter is_release (trace (hand_over
      \<lparr>input_channels = (\<lambda>h. if h = 2 then Some [1, 0xF100] else None),
       edges = [((1, 1), (2, 1)), ((1, 1), (3, 4)), ((5, 1), (2, 1))]\<rparr>
      \<lparr>meta = ''json'', meta_hash = 0, data = [], channel = 1, node = 1\<rparr> 2))) = 1
   \<and> trace (hand_over
      \<lparr>input_channels = (\<lambda>h. if h = 2 then Some [1, 0xF100] else None),
       edges = [((1, 1), (2, 1)), ((1, 1), (3, 4)), ((5, 1), (2, 1))]\<rparr>
      \<lparr>meta = ''json'', meta_hash = 0, data = [], channel = 7, node = 1\<rparr> 2)
     = [Released Caller]
   \<and> trace (hand_over
      \<lparr>input_channels = (\<lambda>h. if h = 2 then Some [1, 0xF100] else None),
       edges = [((1, 1), (2, 1)), ((1, 1), (3, 4)), ((5, 1), (2, 1))]\<rparr>
      \<lparr>meta = ''json'', meta_hash = 0, data = [], channel = 1, node = 1\<rparr> 9)
     = [Released Caller]"
  using release_exactly_once[of
      "\<lparr>input_channels = (\<lambda>h. if h = 2 then Some [1, 0xF100] else None),
       edges = [((1, 1), (2, 1)), ((1, 1), (3, 4)), ((5, 1), (2, 1))]\<rparr>"
      "\<lparr>meta = ''json'', meta_hash = 0, data = [], channel = 1, node = 1\<rparr>" 2]
  by (simp add: hand_over_trace resolve_def)

subsection \<open>The shapes of the requests\<close>

text \<open>
  C3. validate_context_node_create returns true exactly for the messages of the
  context.node.create request shape: an object whose "type" is the string
  "context.node.create", whose "abstract_name" and "instance_name" are present strings and
  whose "id" is a string when present. It returns false for every other message.
\<close>

theorem validate_context_node_create_iff:
  "(validate_context_node_create msg = Inr True) = node_create_request_shape msg
   \<and> (validate_context_node_create msg = Inr False) = (\<not> node_create_request_shape msg)"
  by (simp add: validate_context_node_create_eq)

theorem validate_context_node_create_iff_witness:
  "validate_context_node_create
     (JObject [(''abstract_name'', JString ''sensor_driver''),
      (''id'', JString ''create1''), (''instance_name'', JString ''sensor1''),
      (''type'', JString ''context.node.create'')]) = Inr True
   \<and> node_create_request_shape
     (JObject [(''abstract_name'', JString ''sensor_driver''),
      (''id'', JString ''create1''), (''instance_name'', JString ''sensor1''),
      (''type'', JString ''context.node.create'')])
   \<and> validate_context_node_create
     (JObject [(''abstract_name'', JString ''sensor_driver''),
      (''instance_name'', JNumberUnsigned 7),
      (''type'', JString ''context.node.create'')]) = Inr False
   \<and> \<not> node_create_request_shape
     (JObject [(''abstract_name'', JString ''sensor_driver''),
      (''instance_name'', JNumberUnsigned 7),
      (''type'', JString ''context.node.create'')])"
proof -
  have a: "validate_context_node_create
     (JObject [(''abstract_name'', JString ''sensor_driver''),
      (''id'', JString ''create1''), (''instance_name'', JString ''sensor1''),
      (''type'', JString ''context.node.create'')]) = Inr True"
    by code_simp
  have b: "validate_context_node_create
     (JObject [(''abstract_name'', JString ''sensor_driver''),
      (''instance_name'', JNumberUnsigned 7),
      (''type'', JString ''context.node.create'')]) = Inr False"
    by code_simp
  show ?thesis
    using a b
      validate_context_node_create_iff[of "JObject
        [(''abstract_name'', JString ''sensor_driver''), (''id'', JString ''create1''),
        (''instance_name'', JString ''sensor1''),
        (''type'', JString ''context.node.create'')]"]
      validate_context_node_create_iff[of "JObject
        [(''abstract_name'', JString ''sensor_driver''),
        (''instance_name'', JNumberUnsigned 7),
        (''type'', JString ''context.node.create'')]"]
    by simp
qed

text \<open>
  C4. validate_context_connect returns true exactly for the objects of type
  "context.connect" whose "source" and "destination" are each an array of two elements,
  the first a string (an alias) or an integer (a handle), the second an integer, and
  whose "id" is a string when present. An array of another length under "source" or
  "destination" makes it return false.
\<close>

theorem validate_context_connect_iff:
  "(validate_context_connect msg = Inr True) = context_connect_shape msg
   \<and> (validate_context_connect msg = Inr False) = (\<not> context_connect_shape msg)
   \<and> ((field msg ''source'' = Some (JArray xs) \<or> field msg ''destination'' = Some (JArray xs))
        \<and> length xs \<noteq> 2 \<longrightarrow> validate_context_connect msg = Inr False)"
proof -
  have "\<not> is_endpoint (JArray xs)" if "length xs \<noteq> 2"
    using that is_endpoint_pair[of "JArray xs"] by auto
  then show ?thesis
    by (auto simp: validate_context_connect_eq context_connect_shape_def required_def)
qed

theorem validate_context_connect_iff_witness:
  "validate_context_connect
     (JObject [(''destination'', JArray [JNumberUnsigned 5678, JNumberUnsigned 61712]),
      (''id'', JString ''conn2''),
      (''source'', JArray [JString ''sensor1'', JNumberUnsigned 1]),
      (''type'', JString ''context.connect'')]) = Inr True
   \<and> context_connect_shape
     (JObject [(''destination'', JArray [JNumberUnsigned 5678, JNumberUnsigned 61712]),
      (''id'', JString ''conn2''),
      (''source'', JArray [JString ''sensor1'', JNumberUnsigned 1]),
      (''type'', JString ''context.connect'')])
   \<and> validate_context_connect
     (JObject [(''destination'', JArray [JNumberUnsigned 5678, JNumberUnsigned 61712]),
      (''source'', JArray [JString ''sensor1'', JNumberUnsigned 1, JNumberUnsigned 2]),
      (''type'', JString ''context.connect'')]) = Inr False
   \<and> validate_context_connect
     (JObject [(''destination'', JArray [JNumberUnsigned 5678]),
      (''source'', JArray [JString ''sensor1'', JNumberUnsigned 1]),
      (''type'', JString ''context.connect'')]) = Inr False"
proof -
  have a: "validate_context_connect
     (JObject [(''destination'', JArray [JNumberUnsigned 5678, JNumberUnsigned 61712]),
      (''id'', JString ''conn2''),
      (''source'', JArray [JString ''sensor1'', JNumberUnsigned 1]),
      (''type'', JString ''context.connect'')]) = Inr True"
    by code_simp
  have b: "validate_context_connect
     (JObject [(''destination'', JArray [JNumberUnsigned 5678, JNumberUnsigned 61712]),
      (''source'', JArray [JString ''sensor1'', JNumberUnsigned 1, JNumberUnsigned 2]),
      (''type'', JString ''context.connect'')]) = Inr False"
    using validate_context_connect_iff[of "JObject
        [(''destination'', JArray [JNumberUnsigned 5678, JNumberUnsigned 61712]),
        (''source'', JArray [JString ''sensor1'', JNumberUnsigned 1, JNumberUnsigned 2]),
        (''type'', JString ''context.connect'')]"
        "[JString ''sensor1'', JNumberUnsigned 1, JNumberUnsigned 2]"]
    by simp
  have c: "validate_context_connect
     (JObject [(''destination'', JArray [JNumberUnsigned 5678]),
      (''source'', JArray [JString ''sensor1'', JNumberUnsigned 1]),
      (''type'', JString ''context.connect'')]) = Inr False"
    using validate_context_connect_iff[of "JObject
        [(''destination'', JArray [JNumberUnsigned 5678]),
        (''source'', JArray [JString ''sensor1'', JNumberUnsigned 1]),
        (''type'', JString ''context.connect'')]"
        "[JNumberUnsigned 5678]"]
    by simp
  show ?thesis
    using a b c
      validate_context_connect_iff[of "JObject
        [(''destination'', JArray [JNumberUnsigned 5678, JNumberUnsigned 61712]),
        (''id'', JString ''conn2''),
        (''source'', JArray [JString ''sensor1'', JNumberUnsigned 1]),
        (''type'', JString ''context.connect'')]" "[]"]
    by simp
qed

text \<open>
  C5. validate_node_connect returns true only when "source" is an array of two integers
  and "target" is one integer. A string anywhere in "source", or an array as "target",
  makes it return false.
\<close>

theorem validate_node_connect_integers_only:
  "(validate_node_connect msg = Inr True \<longrightarrow>
      required is_integer_pair msg ''source'' \<and> required is_number_integer msg ''target'')
   \<and> (required (\<lambda>s. list_ex is_string (elements s)) msg ''source'' \<longrightarrow>
      validate_node_connect msg = Inr False)
   \<and> (required is_array msg ''target'' \<longrightarrow> validate_node_connect msg = Inr False)"
proof -
  have a: "\<not> is_integer_pair s" if "list_ex is_string (elements s)" for s
  proof
    assume "is_integer_pair s"
    then have "list_all is_number_integer (elements s)"
      by (simp add: integer_pair_eq)
    with that obtain x where "is_string x" "is_number_integer x"
      by (auto simp: list_ex_iff list_all_iff)
    then show False by (cases x) simp_all
  qed
  have b: "\<not> is_number_integer t" if "is_array t" for t
    using that by (cases t) simp_all
  show ?thesis
    using a b
    by (auto simp: validate_node_connect_eq node_connect_shape_def required_def
        split: option.splits)
qed

theorem validate_node_connect_integers_only_witness:
  "validate_node_connect
     (JObject [(''id'', JString ''conn1''),
      (''source'', JArray [JNumberUnsigned 1234, JNumberUnsigned 1234]),
      (''target'', JNumberUnsigned 61712), (''type'', JString ''node.connect'')]) = Inr True
   \<and> required is_integer_pair
     (JObject [(''id'', JString ''conn1''),
      (''source'', JArray [JNumberUnsigned 1234, JNumberUnsigned 1234]),
      (''target'', JNumberUnsigned 61712), (''type'', JString ''node.connect'')]) ''source''
   \<and> required is_number_integer
     (JObject [(''id'', JString ''conn1''),
      (''source'', JArray [JNumberUnsigned 1234, JNumberUnsigned 1234]),
      (''target'', JNumberUnsigned 61712), (''type'', JString ''node.connect'')]) ''target''
   \<and> validate_node_connect
     (JObject [(''source'', JArray [JString ''sensor1'', JNumberUnsigned 1234]),
      (''target'', JNumberUnsigned 61712), (''type'', JString ''node.connect'')]) = Inr False
   \<and> validate_node_connect
     (JObject [(''source'', JArray [JNumberUnsigned 1234, JNumberUnsigned 1234]),
      (''target'', JArray [JNumberUnsigned 5678, JNumberUnsigned 61712]),
      (''type'', JString ''node.connect'')]) = Inr False
   \<and> validate_context_connect
     (JObject [(''destination'', JArray [JNumberUnsigned 5678, JNumberUnsigned 61712]),
      (''source'', JArray [JString ''sensor1'', JNumberUnsigned 1234]),
      (''type'', JString ''context.connect'')]) = Inr True"
proof -
  note t = validate_node_connect_integers_only
  have a: "validate_node_connect
     (JObject [(''id'', JString ''conn1''),
      (''source'', JArray [JNumberUnsigned 1234, JNumberUnsigned 1234]),
      (''target'', JNumberUnsigned 61712), (''type'', JString ''node.connect'')]) = Inr True"
    by code_simp
  have b: "validate_node_connect
     (JObject [(''source'', JArray [JString ''sensor1'', JNumberUnsigned 1234]),
      (''target'', JNumberUnsigned 61712), (''type'', JString ''node.connect'')]) = Inr False"
    using t[of "JObject
        [(''source'', JArray [JString ''sensor1'', JNumberUnsigned 1234]),
        (''target'', JNumberUnsigned 61712), (''type'', JString ''node.connect'')]"]
    by (simp add: required_def)
  have c: "validate_node_connect
     (JObject [(''source'', JArray [JNumberUnsigned 1234, JNumberUnsigned 1234]),
      (''target'', JArray [JNumberUnsigned 5678, JNumberUnsigned 61712]),
      (''type'', JString ''node.connect'')]) = Inr False"
    using t[of "JObject
        [(''source'', JArray [JNumberUnsigned 1234, JNumberUnsigned 1234]),
        (''target'', JArray [JNumberUnsigned 5678, JNumberUnsigned 61712]),
        (''type'', JString ''node.connect'')]"]
    by (simp add: required_def)
  have d: "validate_context_connect
     (JObject [(''destination'', JArray [JNumberUnsigned 5678, JNumberUnsigned 61712]),
      (''source'', JArray [JString ''sensor1'', JNumberUnsigned 1234]),
      (''type'', JString ''context.connect'')]) = Inr True"
    by code_simp
  show ?thesis
    using a b c d
      t[of "JObject
        [(''id'', JString ''conn1''),
        (''source'', JArray [JNumberUnsigned 1234, JNumberUnsigned 1234]),
        (''target'', JNumberUnsigned 61712), (''type'', JString ''node.connect'')]"]
    by simp
qed

subsection \<open>Elements of the data-type array\<close>

text \<open>
  C6. The claim is that validate_context_abstract_nodes_list returns false when a channel
  descriptor carries a "data types" array with an element that is not a string. The
  validator tests the field with \<^verbatim>\<open>is_array()\<close> only (lines 36 and 45) and never
  visits its elements: the message below, whose input channel has the data types
  \<^verbatim>\<open>[1, null]\<close>, is accepted.
\<close>

theorem abstract_nodes_list_accepts_non_string_data_type:
  "validate_context_abstract_nodes_list (JObject
     [(''id'', JString ''abs_nodes1''),
      (''instances'', JArray [JObject
         [(''channels'', JObject [(''input'', JArray [JObject
              [(''data types'', JArray [JNumberUnsigned 1, JNull]),
               (''number'', JNumberUnsigned 1)]])]),
          (''name'', JString ''sensor_driver''), (''version'', JString ''1.0.0'')]]),
      (''type'', JString ''context.abstract_nodes.list'')]) = Inr True"
  by code_simp

subsection \<open>Status codes\<close>

text \<open>
  C7. Success is 0 and the five failures are negative and different from each other and
  from success: no two enumerators of \<^verbatim>\<open>nadi_status\<close> share a value, so an
  invalid-channel result of send cannot be taken for an invalid-node result or for success.
\<close>

theorem status_codes_distinguish:
  "status_code NADI_OK = 0
   \<and> list_all (\<lambda>s. status_code s < 0)
        [NADI_INVALID_NODE, NADI_INVALID_MESSAGE, NADI_NOT_INITIALIZED,
         NADI_INVALID_CHANNEL, NADI_BUFFER_TOO_SMALL]
   \<and> distinct (map status_code
        [NADI_OK, NADI_INVALID_NODE, NADI_INVALID_MESSAGE, NADI_NOT_INITIALIZED,
         NADI_INVALID_CHANNEL, NADI_BUFFER_TOO_SMALL])
   \<and> inj status_code
   \<and> status_code NADI_INVALID_CHANNEL \<noteq> status_code NADI_INVALID_NODE"
proof -
  have "inj status_code"
  proof (rule injI)
    fix x y
    assume "status_code x = status_code y"
    then show "x = y"
      by (cases x; cases y) simp_all
  qed
  then show ?thesis
    by simp
qed

subsection \<open>The correlation id\<close>

text \<open>
  C8. Whether "id" is required differs by message class. The query validators
  (context.connections, context.abstract_nodes, context.nodes), the node.connect.confirm
  and node.disconnect.confirm validators and the context.node.create.confirm validator
  return false for every message without a string "id". The request validators
  (context.node.create, context.node.destroy, context.connect, context.disconnect,
  node.connect, node.disconnect) and the context.connect.confirm,
  context.disconnect.confirm and context.node.destroy.confirm validators do not need it:
  a message they accept is still accepted once its "id" is removed.
\<close>

theorem id_requiredness_by_message_class:
  "(\<not> required is_string msg ''id'' \<longrightarrow>
      validate_context_connections msg = Inr False
      \<and> validate_context_abstract_nodes msg = Inr False
      \<and> validate_context_nodes msg = Inr False
      \<and> validate_node_connect_confirm msg = Inr False
      \<and> validate_node_disconnect_confirm msg = Inr False
      \<and> validate_context_node_create_confirm msg = Inr False)
   \<and> (validate_context_node_create msg = Inr True \<longrightarrow>
        validate_context_node_create (without_field ''id'' msg) = Inr True)
   \<and> (validate_context_node_destroy msg = Inr True \<longrightarrow>
        validate_context_node_destroy (without_field ''id'' msg) = Inr True)
   \<and> (validate_context_connect msg = Inr True \<longrightarrow>
        validate_context_connect (without_field ''id'' msg) = Inr True)
   \<and> (validate_context_disconnect msg = Inr True \<longrightarrow>
        validate_context_disconnect (without_field ''id'' msg) = Inr True)
   \<and> (validate_node_connect msg = Inr True \<longrightarrow>
        validate_node_connect (without_field ''id'' msg) = Inr True)
   \<and> (validate_node_disconnect msg = Inr True \<longrightarrow>
        validate_node_disconnect (without_field ''id'' msg) = Inr True)
   \<and> (validate_context_connect_confirm msg = Inr True \<longrightarrow>
        validate_context_connect_confirm (without_field ''id'' msg) = Inr True)
   \<and> (validate_context_disconnect_confirm msg = Inr True \<longrightarrow>
        validate_context_disconnect_confirm (without_field ''id'' msg) = Inr True)
   \<and> (validate_context_node_destroy_confirm msg = Inr True \<longrightarrow>
        validate_context_node_destroy_confirm (without_field ''id'' msg) = Inr True)
   \<and> \<not> contains (without_field ''id'' msg) ''id''"
proof -
  have absent: "optional p (without_field ''id'' msg) ''id''" for p
    by (simp add: optional_def field_without_field)
  have kept: "k \<noteq> ''id'' \<Longrightarrow> required p (without_field ''id'' msg) k = required p msg k" for p k
    by (simp add: required_def field_without_field)
  have same_type: "has_type (without_field ''id'' msg) t = has_type msg t" for t
    by (simp add: has_type_def field_without_field)
  note erased = absent kept same_type is_object_without_field
  have r0: "\<not> required is_string msg ''id'' \<Longrightarrow> validate_context_connections msg = Inr False"
    by (simp add: validate_context_connections_eq)
  have r1: "\<not> required is_string msg ''id'' \<Longrightarrow> validate_context_abstract_nodes msg = Inr False"
    by (simp add: validate_context_abstract_nodes_eq)
  have r2: "\<not> required is_string msg ''id'' \<Longrightarrow> validate_context_nodes msg = Inr False"
    by (simp add: validate_context_nodes_eq)
  have r3: "\<not> required is_string msg ''id'' \<Longrightarrow> validate_node_connect_confirm msg = Inr False"
    by (simp add: validate_node_connect_confirm_eq)
  have r4: "\<not> required is_string msg ''id'' \<Longrightarrow> validate_node_disconnect_confirm msg = Inr False"
    by (simp add: validate_node_disconnect_confirm_eq)
  have r5: "\<not> required is_string msg ''id'' \<Longrightarrow> validate_context_node_create_confirm msg = Inr False"
    by (simp add: validate_context_node_create_confirm_eq)
  have o0: "validate_context_node_create msg = Inr True \<Longrightarrow>
      validate_context_node_create (without_field ''id'' msg) = Inr True"
    by (simp add: validate_context_node_create_eq node_create_request_shape_def erased)
  have o1: "validate_context_node_destroy msg = Inr True \<Longrightarrow>
      validate_context_node_destroy (without_field ''id'' msg) = Inr True"
    by (simp add: validate_context_node_destroy_eq erased)
  have o2: "validate_context_connect msg = Inr True \<Longrightarrow>
      validate_context_connect (without_field ''id'' msg) = Inr True"
    by (simp add: validate_context_connect_eq context_connect_shape_def erased)
  have o3: "validate_context_disconnect msg = Inr True \<Longrightarrow>
      validate_context_disconnect (without_field ''id'' msg) = Inr True"
    by (simp add: validate_context_disconnect_eq erased)
  have o4: "validate_node_connect msg = Inr True \<Longrightarrow>
      validate_node_connect (without_field ''id'' msg) = Inr True"
    by (simp add: validate_node_connect_eq node_connect_shape_def erased)
  have o5: "validate_node_disconnect msg = Inr True \<Longrightarrow>
      validate_node_disconnect (without_field ''id'' msg) = Inr True"
    by (simp add: validate_node_disconnect_eq erased)
  have o6: "validate_context_connect_confirm msg = Inr True \<Longrightarrow>
      validate_context_connect_confirm (without_field ''id'' msg) = Inr True"
    by (simp add: validate_context_connect_confirm_eq erased)
  have o7: "validate_context_disconnect_confirm msg = Inr True \<Longrightarrow>
      validate_context_disconnect_confirm (without_field ''id'' msg) = Inr True"
    by (simp add: validate_context_disconnect_confirm_eq erased)
  have o8: "validate_context_node_destroy_confirm msg = Inr True \<Longrightarrow>
      validate_context_node_destroy_confirm (without_field ''id'' msg) = Inr True"
    by (simp add: validate_context_node_destroy_confirm_eq erased)
  show ?thesis
    using r0 r1 r2 r3 r4 r5 o0 o1 o2 o3 o4 o5 o6 o7 o8 contains_without_field[of "''id''" msg]
    by blast
qed

theorem id_requiredness_by_message_class_witness:
  "validate_context_connections
     (JObject [(''type'', JString ''context.connections'')]) = Inr False
   \<and> validate_context_abstract_nodes
     (JObject [(''type'', JString ''context.abstract_nodes'')]) = Inr False
   \<and> validate_context_nodes
     (JObject [(''type'', JString ''context.nodes'')]) = Inr False
   \<and> validate_node_connect_confirm
     (JObject [(''status'', JString ''success''),
      (''type'', JString ''node.connect.confirm'')]) = Inr False
   \<and> validate_node_disconnect_confirm
     (JObject [(''status'', JString ''success''),
      (''type'', JString ''node.disconnect.confirm'')]) = Inr False
   \<and> validate_context_node_create_confirm
     (JObject [(''instance_name'', JString ''sensor1''),
      (''node'', JNumberUnsigned 1234),
      (''type'', JString ''context.node.create.confirm'')]) = Inr False
   \<and> validate_context_node_create
     (JObject [(''abstract_name'', JString ''sensor_driver''),
      (''id'', JString ''create1''), (''instance_name'', JString ''sensor1''),
      (''type'', JString ''context.node.create'')]) = Inr True
   \<and> validate_context_node_create (without_field ''id''
     (JObject [(''abstract_name'', JString ''sensor_driver''),
      (''id'', JString ''create1''), (''instance_name'', JString ''sensor1''),
      (''type'', JString ''context.node.create'')])) = Inr True
   \<and> validate_context_node_destroy
     (JObject [(''id'', JString ''destroy1''), (''instance_name'', JString ''sensor1''),
      (''type'', JString ''context.node.destroy'')]) = Inr True
   \<and> validate_context_node_destroy (without_field ''id''
     (JObject [(''id'', JString ''destroy1''), (''instance_name'', JString ''sensor1''),
      (''type'', JString ''context.node.destroy'')])) = Inr True
   \<and> validate_context_connect
     (JObject [(''destination'', JArray [JNumberUnsigned 5678, JNumberUnsigned 61712]),
      (''id'', JString ''conn2''),
      (''source'', JArray [JString ''sensor1'', JNumberUnsigned 1]),
      (''type'', JString ''context.connect'')]) = Inr True
   \<and> validate_context_connect (without_field ''id''
     (JObject [(''destination'', JArray [JNumberUnsigned 5678, JNumberUnsigned 61712]),
      (''id'', JString ''conn2''),
      (''source'', JArray [JString ''sensor1'', JNumberUnsigned 1]),
      (''type'', JString ''context.connect'')])) = Inr True
   \<and> validate_context_disconnect
     (JObject [(''destination'', JArray [JNumberUnsigned 5678, JNumberUnsigned 61712]),
      (''id'', JString ''disconn2''),
      (''source'', JArray [JString ''sensor1'', JNumberUnsigned 1]),
      (''type'', JString ''context.disconnect'')]) = Inr True
   \<and> validate_context_disconnect (without_field ''id''
     (JObject [(''destination'', JArray [JNumberUnsigned 5678, JNumberUnsigned 61712]),
      (''id'', JString ''disconn2''),
      (''source'', JArray [JString ''sensor1'', JNumberUnsigned 1]),
      (''type'', JString ''context.disconnect'')])) = Inr True
   \<and> validate_node_connect
     (JObject [(''id'', JString ''conn1''),
      (''source'', JArray [JNumberUnsigned 1234, JNumberUnsigned 1234]),
      (''target'', JNumberUnsigned 61712), (''type'', JString ''node.connect'')]) = Inr True
   \<and> validate_node_connect (without_field ''id''
     (JObject [(''id'', JString ''conn1''),
      (''source'', JArray [JNumberUnsigned 1234, JNumberUnsigned 1234]),
      (''target'', JNumberUnsigned 61712), (''type'', JString ''node.connect'')])) = Inr True
   \<and> validate_node_disconnect
     (JObject [(''id'', JString ''disconn1''),
      (''source'', JArray [JNumberUnsigned 1234, JNumberUnsigned 1234]),
      (''target'', JNumberUnsigned 61712), (''type'', JString ''node.disconnect'')]) = Inr True
   \<and> validate_node_disconnect (without_field ''id''
     (JObject [(''id'', JString ''disconn1''),
      (''source'', JArray [JNumberUnsigned 1234, JNumberUnsigned 1234]),
      (''target'', JNumberUnsigned 61712), (''type'', JString ''node.disconnect'')])) = Inr True
   \<and> validate_context_connect_confirm
     (JObject [(''id'', JString ''conn2''), (''status'', JString ''success''),
      (''type'', JString ''context.connect.confirm'')]) = Inr True
   \<and> validate_context_connect_confirm (without_field ''id''
     (JObject [(''id'', JString ''conn2''), (''status'', JString ''success''),
      (''type'', JString ''context.connect.confirm'')])) = Inr True
   \<and> validate_context_disconnect_confirm
     (JObject [(''id'', JString ''disconn2''), (''status'', JString ''success''),
      (''type'', JString ''context.disconnect.confirm'')]) = Inr True
   \<and> validate_context_disconnect_confirm (without_field ''id''
     (JObject [(''id'', JString ''disconn2''), (''status'', JString ''success''),
      (''type'', JString ''context.disconnect.confirm'')])) = Inr True
   \<and> validate_context_node_destroy_confirm
     (JObject [(''id'', JString ''destroy1''), (''status'', JString ''success''),
      (''type'', JString ''context.node.destroy.confirm'')]) = Inr True
   \<and> validate_context_node_destroy_confirm (without_field ''id''
     (JObject [(''id'', JString ''destroy1''), (''status'', JString ''success''),
      (''type'', JString ''context.node.destroy.confirm'')])) = Inr True"
proof -
  note t = id_requiredness_by_message_class
  have a0: "validate_context_connections
     (JObject [(''type'', JString ''context.connections'')]) = Inr False"
    using t[of "JObject [(''type'', JString ''context.connections'')]"]
    by (simp add: required_def)
  have a1: "validate_context_abstract_nodes
     (JObject [(''type'', JString ''context.abstract_nodes'')]) = Inr False"
    using t[of "JObject [(''type'', JString ''context.abstract_nodes'')]"]
    by (simp add: required_def)
  have a2: "validate_context_nodes
     (JObject [(''type'', JString ''context.nodes'')]) = Inr False"
    using t[of "JObject [(''type'', JString ''context.nodes'')]"]
    by (simp add: required_def)
  have a3: "validate_node_connect_confirm
     (JObject [(''status'', JString ''success''),
      (''type'', JString ''node.connect.confirm'')]) = Inr False"
    using t[of "JObject [(''status'', JString ''success''),
      (''type'', JString ''node.connect.confirm'')]"]
    by (simp add: required_def)
  have a4: "validate_node_disconnect_confirm
     (JObject [(''status'', JString ''success''),
      (''type'', JString ''node.disconnect.confirm'')]) = Inr False"
    using t[of "JObject [(''status'', JString ''success''),
      (''type'', JString ''node.disconnect.confirm'')]"]
    by (simp add: required_def)
  have a5: "validate_context_node_create_confirm
     (JObject [(''instance_name'', JString ''sensor1''),
      (''node'', JNumberUnsigned 1234),
      (''type'', JString ''context.node.create.confirm'')]) = Inr False"
    using t[of "JObject [(''instance_name'', JString ''sensor1''),
      (''node'', JNumberUnsigned 1234),
      (''type'', JString ''context.node.create.confirm'')]"]
    by (simp add: required_def)
  have b0: "validate_context_node_create
     (JObject [(''abstract_name'', JString ''sensor_driver''),
      (''id'', JString ''create1''), (''instance_name'', JString ''sensor1''),
      (''type'', JString ''context.node.create'')]) = Inr True"
    by code_simp
  have c0: "validate_context_node_create (without_field ''id''
     (JObject [(''abstract_name'', JString ''sensor_driver''),
      (''id'', JString ''create1''), (''instance_name'', JString ''sensor1''),
      (''type'', JString ''context.node.create'')])) = Inr True"
    using t[of "JObject [(''abstract_name'', JString ''sensor_driver''),
      (''id'', JString ''create1''), (''instance_name'', JString ''sensor1''),
      (''type'', JString ''context.node.create'')]"] b0
    by simp
  have b1: "validate_context_node_destroy
     (JObject [(''id'', JString ''destroy1''), (''instance_name'', JString ''sensor1''),
      (''type'', JString ''context.node.destroy'')]) = Inr True"
    by code_simp
  have c1: "validate_context_node_destroy (without_field ''id''
     (JObject [(''id'', JString ''destroy1''), (''instance_name'', JString ''sensor1''),
      (''type'', JString ''context.node.destroy'')])) = Inr True"
    using t[of "JObject [(''id'', JString ''destroy1''), (''instance_name'', JString ''sensor1''),
      (''type'', JString ''context.node.destroy'')]"] b1
    by simp
  have b2: "validate_context_connect
     (JObject [(''destination'', JArray [JNumberUnsigned 5678, JNumberUnsigned 61712]),
      (''id'', JString ''conn2''),
      (''source'', JArray [JString ''sensor1'', JNumberUnsigned 1]),
      (''type'', JString ''context.connect'')]) = Inr True"
    by code_simp
  have c2: "validate_context_connect (without_field ''id''
     (JObject [(''destination'', JArray [JNumberUnsigned 5678, JNumberUnsigned 61712]),
      (''id'', JString ''conn2''),
      (''source'', JArray [JString ''sensor1'', JNumberUnsigned 1]),
      (''type'', JString ''context.connect'')])) = Inr True"
    using t[of "JObject [(''destination'', JArray [JNumberUnsigned 5678, JNumberUnsigned 61712]),
      (''id'', JString ''conn2''),
      (''source'', JArray [JString ''sensor1'', JNumberUnsigned 1]),
      (''type'', JString ''context.connect'')]"] b2
    by simp
  have b3: "validate_context_disconnect
     (JObject [(''destination'', JArray [JNumberUnsigned 5678, JNumberUnsigned 61712]),
      (''id'', JString ''disconn2''),
      (''source'', JArray [JString ''sensor1'', JNumberUnsigned 1]),
      (''type'', JString ''context.disconnect'')]) = Inr True"
    by code_simp
  have c3: "validate_context_disconnect (without_field ''id''
     (JObject [(''destination'', JArray [JNumberUnsigned 5678, JNumberUnsigned 61712]),
      (''id'', JString ''disconn2''),
      (''source'', JArray [JString ''sensor1'', JNumberUnsigned 1]),
      (''type'', JString ''context.disconnect'')])) = Inr True"
    using t[of "JObject [(''destination'', JArray [JNumberUnsigned 5678, JNumberUnsigned 61712]),
      (''id'', JString ''disconn2''),
      (''source'', JArray [JString ''sensor1'', JNumberUnsigned 1]),
      (''type'', JString ''context.disconnect'')]"] b3
    by simp
  have b4: "validate_node_connect
     (JObject [(''id'', JString ''conn1''),
      (''source'', JArray [JNumberUnsigned 1234, JNumberUnsigned 1234]),
      (''target'', JNumberUnsigned 61712), (''type'', JString ''node.connect'')]) = Inr True"
    by code_simp
  have c4: "validate_node_connect (without_field ''id''
     (JObject [(''id'', JString ''conn1''),
      (''source'', JArray [JNumberUnsigned 1234, JNumberUnsigned 1234]),
      (''target'', JNumberUnsigned 61712), (''type'', JString ''node.connect'')])) = Inr True"
    using t[of "JObject [(''id'', JString ''conn1''),
      (''source'', JArray [JNumberUnsigned 1234, JNumberUnsigned 1234]),
      (''target'', JNumberUnsigned 61712), (''type'', JString ''node.connect'')]"] b4
    by simp
  have b5: "validate_node_disconnect
     (JObject [(''id'', JString ''disconn1''),
      (''source'', JArray [JNumberUnsigned 1234, JNumberUnsigned 1234]),
      (''target'', JNumberUnsigned 61712), (''type'', JString ''node.disconnect'')]) = Inr True"
    by code_simp
  have c5: "validate_node_disconnect (without_field ''id''
     (JObject [(''id'', JString ''disconn1''),
      (''source'', JArray [JNumberUnsigned 1234, JNumberUnsigned 1234]),
      (''target'', JNumberUnsigned 61712), (''type'', JString ''node.disconnect'')])) = Inr True"
    using t[of "JObject [(''id'', JString ''disconn1''),
      (''source'', JArray [JNumberUnsigned 1234, JNumberUnsigned 1234]),
      (''target'', JNumberUnsigned 61712), (''type'', JString ''node.disconnect'')]"] b5
    by simp
  have b6: "validate_context_connect_confirm
     (JObject [(''id'', JString ''conn2''), (''status'', JString ''success''),
      (''type'', JString ''context.connect.confirm'')]) = Inr True"
    by code_simp
  have c6: "validate_context_connect_confirm (without_field ''id''
     (JObject [(''id'', JString ''conn2''), (''status'', JString ''success''),
      (''type'', JString ''context.connect.confirm'')])) = Inr True"
    using t[of "JObject [(''id'', JString ''conn2''), (''status'', JString ''success''),
      (''type'', JString ''context.connect.confirm'')]"] b6
    by simp
  have b7: "validate_context_disconnect_confirm
     (JObject [(''id'', JString ''disconn2''), (''status'', JString ''success''),
      (''type'', JString ''context.disconnect.confirm'')]) = Inr True"
    by code_simp
  have c7: "validate_context_disconnect_confirm (without_field ''id''
     (JObject [(''id'', JString ''disconn2''), (''status'', JString ''success''),
      (''type'', JString ''context.disconnect.confirm'')])) = Inr True"
    using t[of "JObject [(''id'', JString ''disconn2''), (''status'', JString ''success''),
      (''type'', JString ''context.disconnect.confirm'')]"] b7
    by simp
  have b8: "validate_context_node_destroy_confirm
     (JObject [(''id'', JString ''destroy1''), (''status'', JString ''success''),
      (''type'', JString ''context.node.destroy.confirm'')]) = Inr True"
    by code_simp
  have c8: "validate_context_node_destroy_confirm (without_field ''id''
     (JObject [(''id'', JString ''destroy1''), (''status'', JString ''success''),
      (''type'', JString ''context.node.destroy.confirm'')])) = Inr True"
    using t[of "JObject [(''id'', JString ''destroy1''), (''status'', JString ''success''),
      (''type'', JString ''context.node.destroy.confirm'')]"] b8
    by simp
  show ?thesis
    using a0 a1 a2 a3 a4 a5 b0 c0 b1 c1 b2 c2 b3 c3 b4 c4 b5 c5 b6 c6 b7 c7 b8 c8
    by simp
qed

text \<open>
  Not every context.*.confirm validator accepts a message without "id":
  validate_context_node_create_confirm rejects a confirmation that is complete but for its
  "id", accepts it with the "id", and accepts no message that lacks the field.
\<close>

theorem context_node_create_confirm_needs_id:
  "validate_context_node_create_confirm (JObject
     [(''instance_name'', JString ''sensor1''), (''node'', JNumberUnsigned 1234),
      (''type'', JString ''context.node.create.confirm'')]) = Inr False
   \<and> validate_context_node_create_confirm (JObject
     [(''id'', JString ''create1''), (''instance_name'', JString ''sensor1''),
      (''node'', JNumberUnsigned 1234),
      (''type'', JString ''context.node.create.confirm'')]) = Inr True
   \<and> \<not> (\<exists>msg. \<not> contains msg ''id'' \<and> validate_context_node_create_confirm msg = Inr True)"
proof -
  have "\<not> (\<exists>msg. \<not> contains msg ''id'' \<and> validate_context_node_create_confirm msg = Inr True)"
    by (auto simp: validate_context_node_create_confirm_eq contains_field required_def)
  moreover have "validate_context_node_create_confirm (JObject
     [(''instance_name'', JString ''sensor1''), (''node'', JNumberUnsigned 1234),
      (''type'', JString ''context.node.create.confirm'')]) = Inr False"
    by code_simp
  moreover have "validate_context_node_create_confirm (JObject
     [(''id'', JString ''create1''), (''instance_name'', JString ''sensor1''),
      (''node'', JNumberUnsigned 1234),
      (''type'', JString ''context.node.create.confirm'')]) = Inr True"
    by code_simp
  ultimately show ?thesis by blast
qed

subsection \<open>Fields and values the validators do not look at\<close>

text \<open>
  C9. Unknown fields do not make validate_context_node_create reject: a message it
  accepts is still accepted when extended with any value under any key other than "type",
  "abstract_name", "instance_name" and "id".
\<close>

theorem node_create_ignores_unknown_fields:
  assumes "validate_context_node_create m = Inr True"
    and "k \<notin> {''type'', ''abstract_name'', ''instance_name'', ''id''}"
  shows "validate_context_node_create (with_field k v m) = Inr True"
  using assms
  by (auto simp: validate_context_node_create_eq node_create_request_shape_def
      field_predicates field_with_field is_object_with_field)

theorem node_create_ignores_unknown_fields_witness:
  "validate_context_node_create
     (JObject [(''abstract_name'', JString ''sensor_driver''),
      (''id'', JString ''create1''), (''instance_name'', JString ''sensor1''),
      (''type'', JString ''context.node.create'')]) = Inr True
   \<and> validate_context_node_create (with_field ''priority'' (JNumberUnsigned 7)
     (JObject [(''abstract_name'', JString ''sensor_driver''),
      (''id'', JString ''create1''), (''instance_name'', JString ''sensor1''),
      (''type'', JString ''context.node.create'')])) = Inr True
   \<and> with_field ''priority'' (JNumberUnsigned 7)
     (JObject [(''abstract_name'', JString ''sensor_driver''),
      (''id'', JString ''create1''), (''instance_name'', JString ''sensor1''),
      (''type'', JString ''context.node.create'')])
     = JObject
        [(''abstract_name'', JString ''sensor_driver''), (''id'', JString ''create1''),
         (''instance_name'', JString ''sensor1''), (''priority'', JNumberUnsigned 7),
         (''type'', JString ''context.node.create'')]"
proof -
  have a: "validate_context_node_create
     (JObject [(''abstract_name'', JString ''sensor_driver''),
      (''id'', JString ''create1''), (''instance_name'', JString ''sensor1''),
      (''type'', JString ''context.node.create'')]) = Inr True"
    by code_simp
  have k: "''priority'' \<notin> {''type'', ''abstract_name'', ''instance_name'', ''id''}"
    by simp
  have e: "with_field ''priority'' (JNumberUnsigned 7)
     (JObject [(''abstract_name'', JString ''sensor_driver''),
      (''id'', JString ''create1''), (''instance_name'', JString ''sensor1''),
      (''type'', JString ''context.node.create'')])
     = JObject
        [(''abstract_name'', JString ''sensor_driver''), (''id'', JString ''create1''),
         (''instance_name'', JString ''sensor1''), (''priority'', JNumberUnsigned 7),
         (''type'', JString ''context.node.create'')]"
    by code_simp
  from node_create_ignores_unknown_fields[OF a k, of "JNumberUnsigned 7"] a e
  show ?thesis
    by blast
qed

text \<open>
  C10. No validator enforces a range of channel numbers, for no validator looks at what an
  integer is. Two messages that differ only in their integers get the same verdict from
  each of the eighteen validators. A context.connect or context.disconnect request, with
  or without "id" and whatever other fields it carries, is accepted when "source" and
  "destination" are (alias or handle, channel) pairs with any integers as channels; so is a
  node.connect or node.disconnect request with any integers in "source" and as "target".
  The loop bodies of the two list validators pass a connection with any integers as
  channels and a channel descriptor with any integer as "number", and the lists are
  accepted when every entry passes. Every 64-bit value, negative or above 0xF000 included,
  is an integer of the signed and of the unsigned kind.
\<close>

theorem no_validator_reads_integer_values:
  "(zero_integers msg' = zero_integers msg \<longrightarrow>
      validate_context_abstract_nodes msg' = validate_context_abstract_nodes msg
      \<and> validate_context_abstract_nodes_list msg' = validate_context_abstract_nodes_list msg
      \<and> validate_context_connect msg' = validate_context_connect msg
      \<and> validate_context_connect_confirm msg' = validate_context_connect_confirm msg
      \<and> validate_context_connections msg' = validate_context_connections msg
      \<and> validate_context_connections_list msg' = validate_context_connections_list msg
      \<and> validate_context_disconnect msg' = validate_context_disconnect msg
      \<and> validate_context_disconnect_confirm msg' = validate_context_disconnect_confirm msg
      \<and> validate_context_node_create msg' = validate_context_node_create msg
      \<and> validate_context_node_create_confirm msg' = validate_context_node_create_confirm msg
      \<and> validate_context_node_destroy msg' = validate_context_node_destroy msg
      \<and> validate_context_node_destroy_confirm msg' = validate_context_node_destroy_confirm msg
      \<and> validate_context_nodes msg' = validate_context_nodes msg
      \<and> validate_context_nodes_list msg' = validate_context_nodes_list msg
      \<and> validate_node_connect msg' = validate_node_connect msg
      \<and> validate_node_connect_confirm msg' = validate_node_connect_confirm msg
      \<and> validate_node_disconnect msg' = validate_node_disconnect msg
      \<and> validate_node_disconnect_confirm msg' = validate_node_disconnect_confirm msg)
   \<and> (is_object msg \<and> has_type msg ''context.connect''
        \<and> field msg ''source'' = Some (JArray [a, c])
        \<and> field msg ''destination'' = Some (JArray [b, d])
        \<and> (is_string a \<or> is_number_integer a) \<and> (is_string b \<or> is_number_integer b)
        \<and> is_number_integer c \<and> is_number_integer d
        \<and> optional is_string msg ''id''
      \<longrightarrow> validate_context_connect msg = Inr True)
   \<and> (is_object msg \<and> has_type msg ''context.disconnect''
        \<and> field msg ''source'' = Some (JArray [a, c])
        \<and> field msg ''destination'' = Some (JArray [b, d])
        \<and> (is_string a \<or> is_number_integer a) \<and> (is_string b \<or> is_number_integer b)
        \<and> is_number_integer c \<and> is_number_integer d
        \<and> optional is_string msg ''id''
      \<longrightarrow> validate_context_disconnect msg = Inr True)
   \<and> (is_object msg \<and> has_type msg ''node.connect''
        \<and> field msg ''source'' = Some (JArray [a, c])
        \<and> field msg ''target'' = Some d
        \<and> is_number_integer a \<and> is_number_integer c \<and> is_number_integer d
        \<and> optional is_string msg ''id''
      \<longrightarrow> validate_node_connect msg = Inr True)
   \<and> (is_object msg \<and> has_type msg ''node.disconnect''
        \<and> field msg ''source'' = Some (JArray [a, c])
        \<and> field msg ''target'' = Some d
        \<and> is_number_integer a \<and> is_number_integer c \<and> is_number_integer d
        \<and> optional is_string msg ''id''
      \<longrightarrow> validate_node_disconnect msg = Inr True)
   \<and> (is_object conn
        \<and> field conn ''source'' = Some (JArray [a, c])
        \<and> field conn ''target'' = Some (JArray [b, d])
        \<and> (is_string a \<or> is_number_integer a) \<and> (is_string b \<or> is_number_integer b)
        \<and> is_number_integer c \<and> is_number_integer d
      \<longrightarrow> connection_checks conn rest = rest)
   \<and> (is_object msg \<and> has_type msg ''context.connections.list''
        \<and> required is_string msg ''id''
        \<and> field msg ''connections'' = Some (JArray conns)
        \<and> list_all (\<lambda>x. connection_checks x (Inr True) = Inr True) conns
      \<longrightarrow> validate_context_connections_list msg = Inr True)
   \<and> (is_object ch \<and> field ch ''number'' = Some c \<and> is_number_integer c
        \<and> optional is_string ch ''name'' \<and> optional is_array ch ''data types''
      \<longrightarrow> channel_checks ch rest = rest)
   \<and> (is_object msg \<and> has_type msg ''context.abstract_nodes.list''
        \<and> required is_string msg ''id''
        \<and> field msg ''instances'' = Some (JArray insts)
        \<and> list_all (\<lambda>x. instance_checks x (Inr True) = Inr True) insts
      \<longrightarrow> validate_context_abstract_nodes_list msg = Inr True)
   \<and> is_number_integer (JNumberInteger w) \<and> is_number_integer (JNumberUnsigned w)"
proof -
  have all: "zero_integers msg' = zero_integers msg \<Longrightarrow>
      validate_context_abstract_nodes msg' = validate_context_abstract_nodes msg
      \<and> validate_context_abstract_nodes_list msg' = validate_context_abstract_nodes_list msg
      \<and> validate_context_connect msg' = validate_context_connect msg
      \<and> validate_context_connect_confirm msg' = validate_context_connect_confirm msg
      \<and> validate_context_connections msg' = validate_context_connections msg
      \<and> validate_context_connections_list msg' = validate_context_connections_list msg
      \<and> validate_context_disconnect msg' = validate_context_disconnect msg
      \<and> validate_context_disconnect_confirm msg' = validate_context_disconnect_confirm msg
      \<and> validate_context_node_create msg' = validate_context_node_create msg
      \<and> validate_context_node_create_confirm msg' = validate_context_node_create_confirm msg
      \<and> validate_context_node_destroy msg' = validate_context_node_destroy msg
      \<and> validate_context_node_destroy_confirm msg' = validate_context_node_destroy_confirm msg
      \<and> validate_context_nodes msg' = validate_context_nodes msg
      \<and> validate_context_nodes_list msg' = validate_context_nodes_list msg
      \<and> validate_node_connect msg' = validate_node_connect msg
      \<and> validate_node_connect_confirm msg' = validate_node_connect_confirm msg
      \<and> validate_node_disconnect msg' = validate_node_disconnect msg
      \<and> validate_node_disconnect_confirm msg' = validate_node_disconnect_confirm msg"
    using validators_zero[of msg'] validators_zero[of msg] by simp
  have pair: "required is_endpoint m k"
    if "field m k = Some (JArray [x, y])" "is_string x \<or> is_number_integer x" "is_number_integer y"
    for m k x y
    using that by (simp add: required_def)
  have ints: "required is_integer_pair m k"
    if "field m k = Some (JArray [x, y])" "is_number_integer x" "is_number_integer y"
    for m k x y
    using that by (simp add: required_def)
  have one: "required is_number_integer m k"
    if "field m k = Some x" "is_number_integer x" for m k x
    using that by (simp add: required_def)
  have conns_ok: "list_all (\<lambda>x. connection_checks x (Inr True) = Inr True) xs
      = list_all (\<lambda>c. is_object c \<and> required is_endpoint c ''source''
                       \<and> required is_endpoint c ''target'') xs" for xs
    by (auto simp: connection_checks_eq list_all_iff)
  have insts_ok: "list_all (\<lambda>x. instance_checks x (Inr True) = Inr True) xs
      = list_all abstract_node_ok xs" for xs
    by (simp add: instance_checks_eq)
  have c1: "validate_context_connect msg = Inr True"
    if "is_object msg" "has_type msg ''context.connect''"
      "field msg ''source'' = Some (JArray [a, c])"
      "field msg ''destination'' = Some (JArray [b, d])"
      "is_string a \<or> is_number_integer a" "is_string b \<or> is_number_integer b"
      "is_number_integer c" "is_number_integer d" "optional is_string msg ''id''"
    using that pair[of msg "''source''" a c] pair[of msg "''destination''" b d]
    by (simp add: validate_context_connect_eq context_connect_shape_def)
  have c2: "validate_context_disconnect msg = Inr True"
    if "is_object msg" "has_type msg ''context.disconnect''"
      "field msg ''source'' = Some (JArray [a, c])"
      "field msg ''destination'' = Some (JArray [b, d])"
      "is_string a \<or> is_number_integer a" "is_string b \<or> is_number_integer b"
      "is_number_integer c" "is_number_integer d" "optional is_string msg ''id''"
    using that pair[of msg "''source''" a c] pair[of msg "''destination''" b d]
    by (simp add: validate_context_disconnect_eq)
  have c3: "validate_node_connect msg = Inr True"
    if "is_object msg" "has_type msg ''node.connect''"
      "field msg ''source'' = Some (JArray [a, c])" "field msg ''target'' = Some d"
      "is_number_integer a" "is_number_integer c" "is_number_integer d"
      "optional is_string msg ''id''"
    using that ints[of msg "''source''" a c] one[of msg "''target''" d]
    by (simp add: validate_node_connect_eq node_connect_shape_def)
  have c4: "validate_node_disconnect msg = Inr True"
    if "is_object msg" "has_type msg ''node.disconnect''"
      "field msg ''source'' = Some (JArray [a, c])" "field msg ''target'' = Some d"
      "is_number_integer a" "is_number_integer c" "is_number_integer d"
      "optional is_string msg ''id''"
    using that ints[of msg "''source''" a c] one[of msg "''target''" d]
    by (simp add: validate_node_disconnect_eq)
  have c5: "connection_checks conn rest = rest"
    if "is_object conn" "field conn ''source'' = Some (JArray [a, c])"
      "field conn ''target'' = Some (JArray [b, d])"
      "is_string a \<or> is_number_integer a" "is_string b \<or> is_number_integer b"
      "is_number_integer c" "is_number_integer d"
    using that pair[of conn "''source''" a c] pair[of conn "''target''" b d]
    by (simp add: connection_checks_eq)
  have c6: "validate_context_connections_list msg = Inr True"
    if "is_object msg" "has_type msg ''context.connections.list''"
      "required is_string msg ''id''" "field msg ''connections'' = Some (JArray conns)"
      "list_all (\<lambda>x. connection_checks x (Inr True) = Inr True) conns"
    using that
    by (simp add: validate_context_connections_list_eq required_def conns_ok)
  have c7: "channel_checks ch rest = rest"
    if "is_object ch" "field ch ''number'' = Some c" "is_number_integer c"
      "optional is_string ch ''name''" "optional is_array ch ''data types''"
    using that one[of ch "''number''" c]
    by (simp add: channel_checks_eq channel_descriptor_ok_def)
  have c8: "validate_context_abstract_nodes_list msg = Inr True"
    if "is_object msg" "has_type msg ''context.abstract_nodes.list''"
      "required is_string msg ''id''" "field msg ''instances'' = Some (JArray insts)"
      "list_all (\<lambda>x. instance_checks x (Inr True) = Inr True) insts"
    using that
    by (simp add: validate_context_abstract_nodes_list_eq required_def insts_ok)
  show ?thesis
    using all c1 c2 c3 c4 c5 c6 c7 c8 by simp
qed

theorem no_validator_reads_integer_values_witness:
  "sint (- 1 :: 64 word) < 0
   \<and> 0xF000 < unat (0xF001 :: 64 word)
   \<and> validate_context_connect
     (JObject [(''destination'', JArray [JNumberUnsigned 5678, JNumberUnsigned 0xF001]),
      (''id'', JString ''conn2''),
      (''source'', JArray [JString ''sensor1'', JNumberInteger (- 1)]),
      (''type'', JString ''context.connect'')]) = Inr True
   \<and> validate_context_connect
     (JObject [(''destination'', JArray [JNumberUnsigned 5678, JNumberUnsigned 0xF001]),
      (''id'', JString ''conn2''),
      (''source'', JArray [JString ''sensor1'', JNumberInteger (- 1)]),
      (''type'', JString ''context.connect'')])
     = validate_context_connect
     (JObject [(''destination'', JArray [JNumberUnsigned 5678, JNumberUnsigned 61712]),
      (''id'', JString ''conn2''),
      (''source'', JArray [JString ''sensor1'', JNumberUnsigned 1]),
      (''type'', JString ''context.connect'')])
   \<and> validate_context_disconnect
     (JObject [(''destination'', JArray [JNumberUnsigned 5678, JNumberUnsigned 0xF001]),
      (''id'', JString ''disconn2''),
      (''source'', JArray [JString ''sensor1'', JNumberInteger (- 1)]),
      (''type'', JString ''context.disconnect'')]) = Inr True
   \<and> validate_node_connect
     (JObject [(''id'', JString ''conn1''),
      (''source'', JArray [JNumberUnsigned 1234, JNumberInteger (- 1)]),
      (''target'', JNumberUnsigned 0xF001), (''type'', JString ''node.connect'')]) = Inr True
   \<and> validate_node_disconnect
     (JObject [(''id'', JString ''disconn1''),
      (''source'', JArray [JNumberUnsigned 1234, JNumberInteger (- 1)]),
      (''target'', JNumberUnsigned 0xF001), (''type'', JString ''node.disconnect'')]) = Inr True
   \<and> connection_checks
     (JObject [(''source'', JArray [JString ''sensor1'', JNumberInteger (- 1)]),
      (''target'', JArray [JNumberUnsigned 5678, JNumberUnsigned 0xF001])]) (Inr True) = Inr True
   \<and> validate_context_connections_list
     (JObject [(''connections'', JArray [JObject [(''source'', JArray [JString ''sensor1'', JNumberInteger (- 1)]),
      (''target'', JArray [JNumberUnsigned 5678, JNumberUnsigned 0xF001])]]),
      (''id'', JString ''conn_query1''),
      (''type'', JString ''context.connections.list'')]) = Inr True
   \<and> channel_checks
     (JObject [(''name'', JString ''temperature''),
      (''number'', JNumberInteger (- 1))]) (Inr True) = Inr True
   \<and> validate_context_abstract_nodes_list
     (JObject [(''id'', JString ''abs_nodes1''),
      (''instances'', JArray [JObject [(''channels'', JObject [(''input'', JArray [JObject [(''name'', JString ''temperature''),
      (''number'', JNumberInteger (- 1))]]),
      (''output'', JArray [JObject [(''number'', JNumberUnsigned 0xF001)]])]),
      (''name'', JString ''sensor_driver''), (''version'', JString ''1.0.0'')]]),
      (''type'', JString ''context.abstract_nodes.list'')]) = Inr True"
proof -
  note t = no_validator_reads_integer_values
  have i: "instance_checks
     (JObject [(''channels'', JObject [(''input'', JArray [JObject [(''name'', JString ''temperature''),
      (''number'', JNumberInteger (- 1))]]),
      (''output'', JArray [JObject [(''number'', JNumberUnsigned 0xF001)]])]),
      (''name'', JString ''sensor_driver''), (''version'', JString ''1.0.0'')]) (Inr True) = Inr True"
    by code_simp
  have c1: "validate_context_connect
     (JObject [(''destination'', JArray [JNumberUnsigned 5678, JNumberUnsigned 0xF001]),
      (''id'', JString ''conn2''),
      (''source'', JArray [JString ''sensor1'', JNumberInteger (- 1)]),
      (''type'', JString ''context.connect'')]) = Inr True"
    using t[where msg = "JObject [(''destination'', JArray [JNumberUnsigned 5678, JNumberUnsigned 0xF001]),
          (''id'', JString ''conn2''),
          (''source'', JArray [JString ''sensor1'', JNumberInteger (- 1)]),
          (''type'', JString ''context.connect'')]"
        and a = "JString ''sensor1''" and c = "JNumberInteger (- 1)"
        and b = "JNumberUnsigned 5678" and d = "JNumberUnsigned 0xF001"]
    by (simp add: has_type_def optional_def)
  have c2: "validate_context_connect
     (JObject [(''destination'', JArray [JNumberUnsigned 5678, JNumberUnsigned 0xF001]),
      (''id'', JString ''conn2''),
      (''source'', JArray [JString ''sensor1'', JNumberInteger (- 1)]),
      (''type'', JString ''context.connect'')])
     = validate_context_connect
     (JObject [(''destination'', JArray [JNumberUnsigned 5678, JNumberUnsigned 61712]),
      (''id'', JString ''conn2''),
      (''source'', JArray [JString ''sensor1'', JNumberUnsigned 1]),
      (''type'', JString ''context.connect'')])"
    using t[where msg' = "JObject [(''destination'', JArray [JNumberUnsigned 5678, JNumberUnsigned 0xF001]),
          (''id'', JString ''conn2''),
          (''source'', JArray [JString ''sensor1'', JNumberInteger (- 1)]),
          (''type'', JString ''context.connect'')]"
        and msg = "JObject [(''destination'', JArray [JNumberUnsigned 5678, JNumberUnsigned 61712]),
          (''id'', JString ''conn2''),
          (''source'', JArray [JString ''sensor1'', JNumberUnsigned 1]),
          (''type'', JString ''context.connect'')]"]
    by simp
  have c3: "validate_context_disconnect
     (JObject [(''destination'', JArray [JNumberUnsigned 5678, JNumberUnsigned 0xF001]),
      (''id'', JString ''disconn2''),
      (''source'', JArray [JString ''sensor1'', JNumberInteger (- 1)]),
      (''type'', JString ''context.disconnect'')]) = Inr True"
    using t[where msg = "JObject [(''destination'', JArray [JNumberUnsigned 5678, JNumberUnsigned 0xF001]),
          (''id'', JString ''disconn2''),
          (''source'', JArray [JString ''sensor1'', JNumberInteger (- 1)]),
          (''type'', JString ''context.disconnect'')]"
        and a = "JString ''sensor1''" and c = "JNumberInteger (- 1)"
        and b = "JNumberUnsigned 5678" and d = "JNumberUnsigned 0xF001"]
    by (simp add: has_type_def optional_def)
  have c4: "validate_node_connect
     (JObject [(''id'', JString ''conn1''),
      (''source'', JArray [JNumberUnsigned 1234, JNumberInteger (- 1)]),
      (''target'', JNumberUnsigned 0xF001), (''type'', JString ''node.connect'')]) = Inr True"
    using t[where msg = "JObject [(''id'', JString ''conn1''),
          (''source'', JArray [JNumberUnsigned 1234, JNumberInteger (- 1)]),
          (''target'', JNumberUnsigned 0xF001), (''type'', JString ''node.connect'')]"
        and a = "JNumberUnsigned 1234" and c = "JNumberInteger (- 1)"
        and d = "JNumberUnsigned 0xF001"]
    by (simp add: has_type_def optional_def)
  have c5: "validate_node_disconnect
     (JObject [(''id'', JString ''disconn1''),
      (''source'', JArray [JNumberUnsigned 1234, JNumberInteger (- 1)]),
      (''target'', JNumberUnsigned 0xF001), (''type'', JString ''node.disconnect'')]) = Inr True"
    using t[where msg = "JObject [(''id'', JString ''disconn1''),
          (''source'', JArray [JNumberUnsigned 1234, JNumberInteger (- 1)]),
          (''target'', JNumberUnsigned 0xF001),
          (''type'', JString ''node.disconnect'')]"
        and a = "JNumberUnsigned 1234" and c = "JNumberInteger (- 1)"
        and d = "JNumberUnsigned 0xF001"]
    by (simp add: has_type_def optional_def)
  have c6: "connection_checks
     (JObject [(''source'', JArray [JString ''sensor1'', JNumberInteger (- 1)]),
      (''target'', JArray [JNumberUnsigned 5678, JNumberUnsigned 0xF001])]) (Inr True) = Inr True"
    using t[where conn = "JObject [(''source'', JArray [JString ''sensor1'', JNumberInteger (- 1)]),
          (''target'', JArray [JNumberUnsigned 5678, JNumberUnsigned 0xF001])]"
        and rest = "Inr True" and a = "JString ''sensor1''" and c = "JNumberInteger (- 1)"
        and b = "JNumberUnsigned 5678" and d = "JNumberUnsigned 0xF001"]
    by simp
  have c7: "validate_context_connections_list
     (JObject [(''connections'', JArray [JObject [(''source'', JArray [JString ''sensor1'', JNumberInteger (- 1)]),
      (''target'', JArray [JNumberUnsigned 5678, JNumberUnsigned 0xF001])]]),
      (''id'', JString ''conn_query1''),
      (''type'', JString ''context.connections.list'')]) = Inr True"
    using c6 t[where msg = "JObject [(''connections'', JArray [JObject [(''source'', JArray [JString ''sensor1'', JNumberInteger (- 1)]),
          (''target'', JArray [JNumberUnsigned 5678, JNumberUnsigned 0xF001])]]),
          (''id'', JString ''conn_query1''),
          (''type'', JString ''context.connections.list'')]"
        and conns = "[JObject [(''source'', JArray [JString ''sensor1'', JNumberInteger (- 1)]),
          (''target'', JArray [JNumberUnsigned 5678, JNumberUnsigned 0xF001])]]"]
    by (simp add: has_type_def required_def)
  have c8: "channel_checks
     (JObject [(''name'', JString ''temperature''),
      (''number'', JNumberInteger (- 1))]) (Inr True) = Inr True"
    using t[where ch = "JObject [(''name'', JString ''temperature''),
          (''number'', JNumberInteger (- 1))]"
        and rest = "Inr True" and c = "JNumberInteger (- 1)"]
    by (simp add: optional_def)
  have c9: "validate_context_abstract_nodes_list
     (JObject [(''id'', JString ''abs_nodes1''),
      (''instances'', JArray [JObject [(''channels'', JObject [(''input'', JArray [JObject [(''name'', JString ''temperature''),
      (''number'', JNumberInteger (- 1))]]),
      (''output'', JArray [JObject [(''number'', JNumberUnsigned 0xF001)]])]),
      (''name'', JString ''sensor_driver''), (''version'', JString ''1.0.0'')]]),
      (''type'', JString ''context.abstract_nodes.list'')]) = Inr True"
    using i t[where msg = "JObject [(''id'', JString ''abs_nodes1''),
          (''instances'', JArray [JObject [(''channels'', JObject [(''input'', JArray [JObject [(''name'', JString ''temperature''),
          (''number'', JNumberInteger (- 1))]]),
          (''output'', JArray [JObject [(''number'', JNumberUnsigned 0xF001)]])]),
          (''name'', JString ''sensor_driver''), (''version'', JString ''1.0.0'')]]),
          (''type'', JString ''context.abstract_nodes.list'')]"
        and insts = "[JObject [(''channels'', JObject [(''input'', JArray [JObject [(''name'', JString ''temperature''),
          (''number'', JNumberInteger (- 1))]]),
          (''output'', JArray [JObject [(''number'', JNumberUnsigned 0xF001)]])]),
          (''name'', JString ''sensor_driver''), (''version'', JString ''1.0.0'')]]"]
    by (simp add: has_type_def required_def)
  show ?thesis
    using c1 c2 c3 c4 c5 c6 c7 c8 c9
    by simp
qed

end
